theory Spec2Isabelle
  imports Complex_Main
begin

section \<open>Python values and errors\<close>

text \<open>
  Exceptions of the Python source are values: a function that can raise returns
  \<open>py_error + 'a\<close>, with \<open>Inl\<close> for the exception.
\<close>

datatype py_error =
  ZeroDivisionError | OverflowError | ValueError string | AttributeError | TypeError
| KeyError | Exception

subsection \<open>Python floats\<close>

text \<open>
  A Python \<open>float\<close> is an IEEE 754 binary64 number: a finite value, an infinity or NaN.
  A finite float is kept as the real number it denotes; \<open>Finite 0\<close> stands for both
  zeros, which compare equal and are both falsy. Every arithmetic result is rounded to
  the nearest binary64 number, ties to the even significand, by \<open>round64\<close>.
\<close>

datatype pyfloat = Finite real | PosInf | NegInf | NaN

definition pow2 :: "int \<Rightarrow> real" where
  "pow2 e = (if 0 \<le> e then 2 ^ nat e else 1 / 2 ^ nat (- e))"

text \<open>
  The binary exponent of \<open>a\<close>: \<open>scale_down a\<close> is the \<open>e\<close> with \<open>2 ^ e \<le> a < 2 ^ (e + 1)\<close> for
  \<open>1 \<le> a < 2 ^ 1024\<close>, and \<open>scale_up a\<close> is the \<open>s\<close> with \<open>1 \<le> a * 2 ^ s < 2\<close> for
  \<open>2 ^ - 1022 \<le> a < 1\<close>, both found bit by bit. Below \<open>2 ^ - 1022\<close> the numbers are
  subnormal and share the exponent \<open>- 1022\<close>.
\<close>

definition scale_down :: "real \<Rightarrow> nat" where
  "scale_down a =
    snd (fold (\<lambda>k (x, e). if 2 ^ k \<le> x then (x / 2 ^ k, e + k) else (x, e))
          [512, 256, 128, 64, 32, 16, 8, 4, 2, 1] (a, 0))"

definition scale_up :: "real \<Rightarrow> nat" where
  "scale_up a =
    snd (fold (\<lambda>k (x, s). if x * 2 ^ k < 2 then (x * 2 ^ k, s + k) else (x, s))
          [512, 256, 128, 64, 32, 16, 8, 4, 2, 1] (a, 0))"

definition exponent :: "real \<Rightarrow> int" where
  "exponent a =
    (if a < pow2 (- 1022) then - 1022
     else if 1 \<le> a then int (scale_down a)
     else - int (scale_up a))"

definition round_half_even :: "real \<Rightarrow> int" where
  "round_half_even m =
    (let f = \<lfloor>m\<rfloor>; d = m - of_int f
     in if d < 1 / 2 then f else if 1 / 2 < d then f + 1 else if even f then f else f + 1)"

text \<open>
  Rounding to 53 significant bits; a result of magnitude \<open>2 ^ 1024\<close> or more is an
  infinity. A decimal literal of the source denotes \<open>round64\<close> of its value.
\<close>

definition round64 :: "real \<Rightarrow> pyfloat" where
  "round64 x =
    (if x = 0 then Finite 0
     else
       (let a = \<bar>x\<bar> in
        if 2 ^ 1024 \<le> a then (if 0 < x then PosInf else NegInf)
        else
          (let q = exponent a - 52;
               r = of_int (round_half_even (a / pow2 q)) * pow2 q
           in if 2 ^ 1024 \<le> r then (if 0 < x then PosInf else NegInf)
              else Finite (if 0 < x then r else - r))))"





text \<open>\<open>a > b\<close> and \<open>a <= b\<close>: a comparison with NaN is false.\<close>

fun fgt :: "pyfloat \<Rightarrow> pyfloat \<Rightarrow> bool" where
  "fgt NaN b = False"
| "fgt a NaN = False"
| "fgt (Finite x) (Finite y) = (y < x)"
| "fgt (Finite x) PosInf = False"
| "fgt (Finite x) NegInf = True"
| "fgt PosInf (Finite y) = True"
| "fgt NegInf (Finite y) = False"
| "fgt PosInf PosInf = False"
| "fgt PosInf NegInf = True"
| "fgt NegInf PosInf = False"
| "fgt NegInf NegInf = False"

fun fle :: "pyfloat \<Rightarrow> pyfloat \<Rightarrow> bool" where
  "fle NaN b = False"
| "fle a NaN = False"
| "fle (Finite x) (Finite y) = (x \<le> y)"
| "fle (Finite x) PosInf = True"
| "fle (Finite x) NegInf = False"
| "fle PosInf (Finite y) = False"
| "fle NegInf (Finite y) = True"
| "fle PosInf PosInf = True"
| "fle PosInf NegInf = False"
| "fle NegInf PosInf = True"
| "fle NegInf NegInf = True"


text \<open>
  Python's \<open>int(x)\<close> on a float truncates towards zero; it raises \<open>OverflowError\<close> on an
  infinity and \<open>ValueError\<close> on NaN.
\<close>

definition py_int :: "pyfloat \<Rightarrow> py_error + int" where
  "py_int a =
    (case a of
       Finite x \<Rightarrow> Inr (if 0 \<le> x then \<lfloor>x\<rfloor> else \<lceil>x\<rceil>)
     | PosInf \<Rightarrow> Inl OverflowError
     | NegInf \<Rightarrow> Inl OverflowError
     | NaN \<Rightarrow> Inl (ValueError ''cannot convert float NaN to integer''))"

text \<open>
  Python's \<open>float(n)\<close> on an integer rounds to the nearest float and raises
  \<open>OverflowError\<close> when the integer is too large.
\<close>

definition float_of_int :: "int \<Rightarrow> py_error + pyfloat" where
  "float_of_int n =
    (case round64 (of_int n) of Finite x \<Rightarrow> Inr (Finite x) | _ \<Rightarrow> Inl OverflowError)"




section \<open>Orders and brackets: \<open>gallump/core/types.py\<close>\<close>

text \<open>
  \<open>PendingOrder\<close>, field by field. A \<open>datetime\<close> or \<open>date\<close> is a number of seconds or
  days; an \<open>Optional\<close> field is an \<open>option\<close>. Two records of this type are equal exactly
  when all fields are, as two instances of the dataclass are.
\<close>

type_synonym datetime = int

record PendingOrder =
  order_id :: string
  symbol :: string
  action :: string
  quantity :: int
  order_type :: string
  limit_price :: "real option"
  stop_price :: "real option"
  trail_amount :: "real option"
  trail_percent :: "real option"
  offset_amount :: "real option"
  midpoint_offset :: "real option"
  time_in_force :: string
  good_after_time :: "datetime option"
  good_till_date :: "int option"
  status :: string
  filled_quantity :: int
  remaining_quantity :: int
  avg_fill_price :: "real option"
  parent_id :: "string option"
  oca_group :: "string option"
  submitted_at :: datetime
  strategy_id :: "int option"
  "notes" :: "string option"
  asset_type :: string
  option_type :: "string option"
  strike :: "real option"
  expiry :: "string option"

text \<open>
  The dataclass constructor with its defaults: the five required fields, and
  \<open>submitted_at\<close>, whose default is the time the class was defined.
\<close>

definition new_PendingOrder ::
  "datetime \<Rightarrow> string \<Rightarrow> string \<Rightarrow> string \<Rightarrow> int \<Rightarrow> string \<Rightarrow> PendingOrder" where
  "new_PendingOrder t oid smb act qty otype =
    \<lparr>order_id = oid, symbol = smb, action = act, quantity = qty, order_type = otype,
     limit_price = None, stop_price = None, trail_amount = None, trail_percent = None,
     offset_amount = None, midpoint_offset = None, time_in_force = ''DAY'',
     good_after_time = None, good_till_date = None, status = ''PendingSubmit'',
     filled_quantity = 0, remaining_quantity = 0, avg_fill_price = None,
     parent_id = None, oca_group = None, submitted_at = t, strategy_id = None,
     notes = None, asset_type = ''STOCK'', option_type = None, strike = None,
     expiry = None\<rparr>"

definition is_working_order :: "PendingOrder \<Rightarrow> bool" where
  "is_working_order self \<longleftrightarrow> status self \<in> set [''PendingSubmit'', ''PreSubmitted'', ''Submitted'']"

record BracketOrder =
  main_order :: PendingOrder
  profit_target :: "PendingOrder option"
  stop_loss :: "PendingOrder option"
  oca_group :: string

definition get_all_orders :: "BracketOrder \<Rightarrow> PendingOrder list" where
  "get_all_orders self =
    [main_order self]
    @ (case profit_target self of Some leg \<Rightarrow> [leg] | None \<Rightarrow> [])
    @ (case stop_loss self of Some leg \<Rightarrow> [leg] | None \<Rightarrow> [])"

definition get_status :: "BracketOrder \<Rightarrow> string" where
  "get_status self =
    (let orders = get_all_orders self in
     if filled_quantity (main_order self) = 0 then status (main_order self)
     else
       (let exit_orders = filter (\<lambda>leg. leg \<noteq> main_order self) orders in
        if list_ex (\<lambda>leg. status leg = ''Filled'') exit_orders then ''Bracket Closed''
        else if list_ex (\<lambda>leg. status leg \<in> set [''Submitted'', ''PreSubmitted'']) exit_orders
          then ''Managing Position''
        else ''Bracket Active''))"

section \<open>Order store: \<open>gallump/core/storage.py\<close>\<close>

text \<open>
  The table \<open>pending_orders\<close>. A row has the surrogate key
  \<open>id INTEGER PRIMARY KEY AUTOINCREMENT\<close>, the 27 columns that mirror the fields of a
  \<open>PendingOrder\<close> (kept together as \<open>columns\<close>), and \<open>last_updated\<close>. The table is the list
  of its rows in insertion order, with the counter SQLite keeps for \<open>AUTOINCREMENT\<close>
  (\<open>sqlite_sequence\<close>). The column \<open>order_id\<close> is \<open>UNIQUE NOT NULL\<close>.
\<close>

record db_row =
  row_id :: nat
  columns :: PendingOrder
  last_updated :: datetime

record Storage =
  pending_orders :: "db_row list"
  pending_orders_seq :: nat

text \<open>The schema's \<open>UNIQUE\<close> constraint on \<open>order_id\<close>.\<close>

definition unique_order_ids :: "Storage \<Rightarrow> bool" where
  "unique_order_ids st \<longleftrightarrow> distinct (map (\<lambda>r. order_id (columns r)) (pending_orders st))"

text \<open>
  \<open>SELECT order_id FROM pending_orders WHERE status IN
  ('PendingSubmit', 'PreSubmitted', 'Submitted', 'PendingCancel')\<close>
\<close>

definition select_active_order_ids :: "Storage \<Rightarrow> string list" where
  "select_active_order_ids st =
    map (\<lambda>r. order_id (columns r))
      (filter (\<lambda>r. status (columns r) \<in>
          set [''PendingSubmit'', ''PreSubmitted'', ''Submitted'', ''PendingCancel''])
        (pending_orders st))"

text \<open>
  \<open>UPDATE pending_orders SET status = 'Filled', last_updated = CURRENT_TIMESTAMP
  WHERE order_id = ? AND status NOT IN ('Filled', 'Cancelled')\<close>: first the \<open>SET\<close> clause
  on one row, then the statement on the table.
\<close>

definition set_filled :: "datetime \<Rightarrow> db_row \<Rightarrow> db_row" where
  "set_filled now r = r\<lparr>columns := (columns r)\<lparr>status := ''Filled''\<rparr>, last_updated := now\<rparr>"

definition update_filled :: "datetime \<Rightarrow> string \<Rightarrow> Storage \<Rightarrow> Storage" where
  "update_filled now oid st =
    st\<lparr>pending_orders :=
      map (\<lambda>r. if order_id (columns r) = oid \<and> status (columns r) \<notin> set [''Filled'', ''Cancelled'']
               then set_filled now r else r)
        (pending_orders st)\<rparr>"

text \<open>
  \<open>INSERT OR REPLACE INTO pending_orders (order_id, ..., notes, last_updated)
  VALUES (?, ..., ?, CURRENT_TIMESTAMP)\<close>: the row that holds the same \<open>order_id\<close> is
  deleted, and the new row takes the next \<open>AUTOINCREMENT\<close> id, one more than the largest
  id the table has ever held.
\<close>

definition insert_or_replace :: "datetime \<Rightarrow> PendingOrder \<Rightarrow> Storage \<Rightarrow> Storage" where
  "insert_or_replace now ord st =
    (let new_id = Suc (fold max (map row_id (pending_orders st)) (pending_orders_seq st)) in
     \<lparr>pending_orders =
        filter (\<lambda>r. order_id (columns r) \<noteq> order_id ord) (pending_orders st)
        @ [\<lparr>row_id = new_id, columns = ord, last_updated = now\<rparr>],
      pending_orders_seq = new_id\<rparr>)"

text \<open>
  \<open>Storage.sync_pending_orders(live_orders)\<close>, run at time \<open>now\<close>. The two Python sets are
  lists without duplicates; the updates of different order ids do not touch the same
  row, so the order in which the set \<open>missing_ids\<close> is walked does not matter.
\<close>

definition sync_pending_orders :: "datetime \<Rightarrow> PendingOrder list \<Rightarrow> Storage \<Rightarrow> Storage" where
  "sync_pending_orders now live_orders st =
    (let db_order_ids = remdups (select_active_order_ids st);
         live_order_ids = remdups (map order_id live_orders);
         missing_ids = filter (\<lambda>i. i \<notin> set live_order_ids) db_order_ids;
         st1 = fold (update_filled now) missing_ids st;
         st2 = fold (insert_or_replace now) live_orders st1
     in st2)"

text \<open>
  \<open>Storage.update_order_status(order_id, status, filled_quantity, avg_fill_price)\<close>: with
  both fill arguments given, \<open>UPDATE pending_orders SET status = ?, filled_quantity = ?,
  avg_fill_price = ?, last_updated = CURRENT_TIMESTAMP WHERE order_id = ?\<close>; otherwise
  the same statement on \<open>status\<close> and \<open>last_updated\<close> alone. First the \<open>SET\<close> clause on one
  row, then the statement on the table.
\<close>

definition set_status ::
  "datetime \<Rightarrow> string \<Rightarrow> int option \<Rightarrow> real option \<Rightarrow> db_row \<Rightarrow> db_row" where
  "set_status now new_status fq avg r =
    (case (fq, avg) of
       (Some f, Some a) \<Rightarrow>
         r\<lparr>columns := (columns r)\<lparr>status := new_status, filled_quantity := f,
                avg_fill_price := Some a\<rparr>,
           last_updated := now\<rparr>
     | _ \<Rightarrow> r\<lparr>columns := (columns r)\<lparr>status := new_status\<rparr>, last_updated := now\<rparr>)"

definition update_order_status ::
  "datetime \<Rightarrow> string \<Rightarrow> string \<Rightarrow> int option \<Rightarrow> real option \<Rightarrow> Storage \<Rightarrow> Storage" where
  "update_order_status now oid new_status fq avg st =
    st\<lparr>pending_orders :=
      map (\<lambda>r. if order_id (columns r) = oid then set_status now new_status fq avg r else r)
        (pending_orders st)\<rparr>"

text \<open>
  \<open>Broker.sync_order_statuses\<close> of \<open>gallump/core/broker.py\<close>, the status-only pass, on the
  store and the list \<open>live_orders\<close> that \<open>get_enhanced_open_orders\<close> returns.
  \<open>get_active_pending_orders\<close> passes \<open>status=None\<close>, so \<open>db_orders\<close> are all rows of the
  table, read before the loop. The model walks them in table order: the query's
  \<open>ORDER BY submitted_at DESC\<close> permutes the steps of the loop, and each step decides from
  the list read before the loop and writes the row of its own order id.
  \<open>live_status_map\<close> is a dictionary comprehension: the last entry of an order id wins.
  The pass only issues \<open>UPDATE\<close> statements.
\<close>

definition live_status_map ::
  "PendingOrder list \<Rightarrow> string \<rightharpoonup> (string \<times> int \<times> real option)" where
  "live_status_map live_orders =
    map_of (rev (map (\<lambda>x. (order_id x, (status x, filled_quantity x, avg_fill_price x))) live_orders))"

text \<open>
  The body of the loop for one \<open>db_order\<close>, in two parts: what the branch decides to write
  (a status with or without fill data, or nothing), and the call of
  \<open>update_order_status\<close> with it.
\<close>

definition sync_action ::
  "(string \<rightharpoonup> (string \<times> int \<times> real option)) \<Rightarrow> PendingOrder
    \<Rightarrow> (string \<times> int option \<times> real option) option" where
  "sync_action live_map db_order =
    (case live_map (order_id db_order) of
       Some (live_status, filled_qty, avg_price) \<Rightarrow>
         (if live_status \<noteq> status db_order \<or> filled_qty \<noteq> filled_quantity db_order
          then Some (live_status, Some filled_qty, avg_price)
          else None)
     | None \<Rightarrow>
         (if status db_order \<in> set [''PendingSubmit'', ''PreSubmitted'', ''Submitted'']
          then Some (''Filled'', None, None)
          else None))"

definition sync_one ::
  "datetime \<Rightarrow> (string \<rightharpoonup> (string \<times> int \<times> real option)) \<Rightarrow> PendingOrder \<Rightarrow> Storage \<Rightarrow> Storage" where
  "sync_one now live_map db_order st =
    (case sync_action live_map db_order of
       Some (new_status, fq, avg) \<Rightarrow>
         update_order_status now (order_id db_order) new_status fq avg st
     | None \<Rightarrow> st)"

definition sync_order_statuses :: "datetime \<Rightarrow> PendingOrder list \<Rightarrow> Storage \<Rightarrow> Storage" where
  "sync_order_statuses now live_orders st =
    (let db_orders = map columns (pending_orders st)
     in fold (sync_one now (live_status_map live_orders)) db_orders st)"

section \<open>Gateway adapter: \<open>gallump/core/broker.py\<close>\<close>

text \<open>
  The part of \<open>Broker\<close> that health reporting reads. The gateway client \<open>self.ib\<close> is
  outside the repository: each method takes what the gateway answers as an argument, a
  value of \<open>py_error + 'a\<close> where the call sits inside the method's \<open>try\<close> block (\<open>Inl\<close> when
  anything in the block raises). Gateway order ids are the strings \<open>str(orderId)\<close>.
\<close>

record Broker =
  connected :: bool
  connection_ready :: bool
  client_id :: "int option"
  last_successful_request :: "datetime option"
  failed_request_count :: nat
  total_request_count :: nat

definition is_connected :: "bool \<Rightarrow> Broker \<Rightarrow> bool" where
  "is_connected ib_isConnected self \<longleftrightarrow> connected self \<and> ib_isConnected"

definition track_request_success :: "datetime \<Rightarrow> Broker \<Rightarrow> Broker" where
  "track_request_success now self =
    self\<lparr>last_successful_request := Some now,
         total_request_count := total_request_count self + 1\<rparr>"

definition track_request_failure :: "Broker \<Rightarrow> Broker" where
  "track_request_failure self =
    self\<lparr>failed_request_count := failed_request_count self + 1,
         total_request_count := total_request_count self + 1\<rparr>"

text \<open>
  \<open>get_positions\<close>: \<open>ib_positions\<close> is the converted answer of \<open>self.ib.positions()\<close>. The
  three early returns (not connected, not ready, no positions) leave the counters alone.
\<close>

definition get_positions ::
  "datetime \<Rightarrow> bool \<Rightarrow> (py_error + 'p list) \<Rightarrow> Broker \<Rightarrow> 'p list \<times> Broker" where
  "get_positions now ib_isConnected ib_positions self =
    (if \<not> is_connected ib_isConnected self then ([], self)
     else if \<not> connection_ready self then ([], self)
     else case ib_positions of
       Inr ps \<Rightarrow> (if ps = [] then ([], self) else (ps, track_request_success now self))
     | Inl e \<Rightarrow> ([], track_request_failure self))"

text \<open>
  \<open>place_order\<close>: \<open>ib_placeOrder\<close> answers the order the method builds with the order id
  the gateway assigned (0, a falsy id, when it assigned none). The method returns the
  id or \<open>None\<close>; it never calls a tracking method.
\<close>

datatype ib_order =
  MarketOrder string int
| LimitOrder string int real
| StopOrder string int real

definition place_order ::
  "bool \<Rightarrow> (string \<Rightarrow> ib_order \<Rightarrow> py_error + int) \<Rightarrow> Broker
    \<Rightarrow> string \<Rightarrow> string \<Rightarrow> int \<Rightarrow> string \<Rightarrow> real option \<Rightarrow> int option \<times> Broker" where
  "place_order ib_isConnected ib_placeOrder self smb act qty otype lmt =
    (if \<not> is_connected ib_isConnected self then (None, self)
     else
       (let ord = (if otype = ''LMT'' \<and> lmt \<noteq> None \<and> lmt \<noteq> Some 0
                   then LimitOrder act qty (the lmt) else MarketOrder act qty)
        in case ib_placeOrder smb ord of
             Inr oid \<Rightarrow> (if oid \<noteq> 0 then (Some oid, self) else (None, self))
           | Inl e \<Rightarrow> (None, self)))"

text \<open>
  \<open>cancel_order\<close>: \<open>ib_trades\<close> lists the ids of \<open>self.ib.trades()\<close>, \<open>ib_cancelOrder\<close>
  answers the cancel request. No tracking method is called on any path.
\<close>

definition cancel_order ::
  "bool \<Rightarrow> (py_error + string list) \<Rightarrow> (string \<Rightarrow> py_error + unit) \<Rightarrow> Broker
    \<Rightarrow> string \<Rightarrow> bool \<times> Broker" where
  "cancel_order ib_isConnected ib_trades ib_cancelOrder self oid =
    (if \<not> is_connected ib_isConnected self then (False, self)
     else case ib_trades of
       Inl e \<Rightarrow> (False, self)
     | Inr ids \<Rightarrow>
         (if oid \<in> set ids
          then (case ib_cancelOrder oid of Inr u \<Rightarrow> (True, self) | Inl e \<Rightarrow> (False, self))
          else (False, self)))"

text \<open>
  \<open>get_open_orders\<close>: the connection test is inside the \<open>try\<close> and returns early; the
  answer of \<open>self.ib.openTrades()\<close> is tracked.
\<close>

definition get_open_orders ::
  "datetime \<Rightarrow> bool \<Rightarrow> (py_error + 'o list) \<Rightarrow> Broker \<Rightarrow> 'o list \<times> Broker" where
  "get_open_orders now ib_isConnected ib_openTrades self =
    (if \<not> is_connected ib_isConnected self then ([], self)
     else case ib_openTrades of
       Inr orders \<Rightarrow> (orders, track_request_success now self)
     | Inl e \<Rightarrow> ([], track_request_failure self))"

text \<open>
  \<open>modify_order\<close>: not connected and order not found both raise inside the \<open>try\<close>, so
  they count as failures. \<open>ib_placeOrder\<close> answers the resubmission of the modified order.
\<close>

definition modify_order ::
  "datetime \<Rightarrow> bool \<Rightarrow> (py_error + string list) \<Rightarrow> (string \<Rightarrow> py_error + unit) \<Rightarrow> Broker
    \<Rightarrow> string \<Rightarrow> bool \<times> Broker" where
  "modify_order now ib_isConnected ib_openTrades ib_placeOrder self oid =
    (if \<not> is_connected ib_isConnected self then (False, track_request_failure self)
     else case ib_openTrades of
       Inl e \<Rightarrow> (False, track_request_failure self)
     | Inr ids \<Rightarrow>
         (if oid \<notin> set ids then (False, track_request_failure self)
          else case ib_placeOrder oid of
                 Inr u \<Rightarrow> (True, track_request_success now self)
               | Inl e \<Rightarrow> (False, track_request_failure self)))"

text \<open>
  \<open>place_bracket_order\<close>: \<open>ib_place3\<close> answers the three \<open>placeOrder\<close> calls (parent, profit
  target, stop loss) with the ids of the three orders. Every failure is tracked and
  raised again.
\<close>

definition place_bracket_order ::
  "datetime \<Rightarrow> bool \<Rightarrow> (string \<Rightarrow> ib_order \<Rightarrow> ib_order \<Rightarrow> ib_order \<Rightarrow> py_error + 'r) \<Rightarrow> Broker
    \<Rightarrow> string \<Rightarrow> string \<Rightarrow> int \<Rightarrow> real \<Rightarrow> real \<Rightarrow> real \<Rightarrow> (py_error + 'r) \<times> Broker" where
  "place_bracket_order now ib_isConnected ib_place3 self smb act qty entry_price profit_target_price stop_loss_price =
    (if \<not> is_connected ib_isConnected self then (Inl Exception, track_request_failure self)
     else
       (let profit_action = (if act = ''BUY'' then ''SELL'' else ''BUY'');
            parent_order = LimitOrder act qty entry_price;
            profit_order = LimitOrder profit_action qty profit_target_price;
            stop_order = StopOrder profit_action qty stop_loss_price
        in case ib_place3 smb parent_order profit_order stop_order of
             Inr res \<Rightarrow> (Inr res, track_request_success now self)
           | Inl e \<Rightarrow> (Inl Exception, track_request_failure self)))"

text \<open>
  \<open>get_connection_health\<close>: the dictionary, with \<open>market_status\<close> (read from the clock)
  passed in.
\<close>

record 'm connection_health =
  h_connected :: bool
  h_connection_ready :: bool
  h_client_id :: "int option"
  h_last_successful_request :: "datetime option"
  h_total_requests :: nat
  h_failed_requests :: nat
  h_success_rate :: real
  h_market_status :: 'm

definition get_connection_health :: "'m \<Rightarrow> Broker \<Rightarrow> 'm connection_health" where
  "get_connection_health market_status self =
    (let success_rate =
       (if total_request_count self > 0
        then (real (total_request_count self) - real (failed_request_count self))
               / real (total_request_count self)
        else 0)
     in \<lparr>h_connected = connected self, h_connection_ready = connection_ready self,
         h_client_id = client_id self,
         h_last_successful_request = last_successful_request self,
         h_total_requests = total_request_count self,
         h_failed_requests = failed_request_count self,
         h_success_rate = success_rate, h_market_status = market_status\<rparr>)"

section \<open>Order validation: \<open>gallump/core/validators.py\<close>\<close>

text \<open>
  \<open>validate_order\<close> takes a raw dictionary. Its values are \<open>None\<close>, strings and numbers;
  the dictionary is a map from keys to values. The Python built-ins whose results
  depend on parsing or printing (\<open>float\<close> and \<open>int\<close> of a string, \<open>str\<close> of a number,
  \<open>datetime.strptime\<close>) are parameters of the model.
\<close>

datatype py_value = PyNone | PyStr string | PyInt int | PyFloat pyfloat

type_synonym py_dict = "string \<rightharpoonup> py_value"

record py_builtins =
  str_of_number :: "py_value \<Rightarrow> string"
  float_of_str :: "string \<Rightarrow> pyfloat option"
  int_of_str :: "string \<Rightarrow> int option"
  strptime_ymd :: "string \<Rightarrow> bool"

definition py_str :: "py_builtins \<Rightarrow> py_value \<Rightarrow> string" where
  "py_str bi v = (case v of PyStr s \<Rightarrow> s | PyNone \<Rightarrow> ''None'' | _ \<Rightarrow> str_of_number bi v)"

definition py_float :: "py_builtins \<Rightarrow> py_value \<Rightarrow> py_error + pyfloat" where
  "py_float bi v =
    (case v of
       PyFloat x \<Rightarrow> Inr x
     | PyInt n \<Rightarrow> float_of_int n
     | PyStr s \<Rightarrow> (case float_of_str bi s of
                     Some x \<Rightarrow> Inr x
                   | None \<Rightarrow> Inl (ValueError ''could not convert string to float''))
     | PyNone \<Rightarrow> Inl TypeError)"

definition py_int_of :: "py_builtins \<Rightarrow> py_value \<Rightarrow> py_error + int" where
  "py_int_of bi v =
    (case v of
       PyInt n \<Rightarrow> Inr n
     | PyFloat x \<Rightarrow> py_int x
     | PyStr s \<Rightarrow> (case int_of_str bi s of
                     Some n \<Rightarrow> Inr n
                   | None \<Rightarrow> Inl (ValueError ''invalid literal for int()''))
     | PyNone \<Rightarrow> Inl TypeError)"

text \<open>
  \<open>except (ValueError, TypeError): raise ValueError(msg)\<close>: the two exceptions are
  replaced, any other one passes through.
\<close>

definition except_value_type :: "string \<Rightarrow> py_error \<Rightarrow> py_error" where
  "except_value_type msg e =
    (case e of ValueError m \<Rightarrow> ValueError msg | TypeError \<Rightarrow> ValueError msg | _ \<Rightarrow> e)"

text \<open>\<open>str.upper()\<close> on the ASCII letters.\<close>

definition upper_char :: "char \<Rightarrow> char" where
  "upper_char c =
    (case map_of (zip ''abcdefghijklmnopqrstuvwxyz'' ''ABCDEFGHIJKLMNOPQRSTUVWXYZ'') c of
       Some u \<Rightarrow> u | None \<Rightarrow> c)"

definition upper :: "string \<Rightarrow> string" where
  "upper s = map upper_char s"

text \<open>Sequencing: the first exception ends the function.\<close>

definition and_then :: "'e + 'a \<Rightarrow> ('a \<Rightarrow> 'e + 'b) \<Rightarrow> 'e + 'b" where
  "and_then m f = (case m of Inl e \<Rightarrow> Inl e | Inr x \<Rightarrow> f x)"

text \<open>\<open>field not in order or order[field] is None\<close>\<close>

definition is_missing :: "py_dict \<Rightarrow> string \<Rightarrow> bool" where
  "is_missing order field \<longleftrightarrow> order field = None \<or> order field = Some PyNone"

text \<open>\<open>order[key]\<close> and \<open>order.get(key, default).upper()\<close>\<close>

definition getitem :: "py_dict \<Rightarrow> string \<Rightarrow> py_error + py_value" where
  "getitem order key = (case order key of Some v \<Rightarrow> Inr v | None \<Rightarrow> Inl KeyError)"

definition get_upper :: "py_dict \<Rightarrow> string \<Rightarrow> string \<Rightarrow> py_error + string" where
  "get_upper order key dflt =
    (case order key of
       None \<Rightarrow> Inr (upper dflt)
     | Some (PyStr s) \<Rightarrow> Inr (upper s)
     | Some _ \<Rightarrow> Inl AttributeError)"

fun check_required :: "string \<Rightarrow> py_dict \<Rightarrow> string list \<Rightarrow> py_error + unit" where
  "check_required msg order [] = Inr ()"
| "check_required msg order (field # rest) =
    (if is_missing order field then Inl (ValueError (msg @ field))
     else check_required msg order rest)"

text \<open>
  \<open>try: quantity = int(order['quantity']); if quantity <= 0: raise ValueError(...)\<close>
  \<open>except (ValueError, TypeError): raise ValueError(f"Invalid quantity: ...")\<close>
\<close>

definition parse_quantity :: "py_builtins \<Rightarrow> py_value \<Rightarrow> py_error + int" where
  "parse_quantity bi v =
    (case py_int_of bi v of
       Inr n \<Rightarrow> (if n \<le> 0 then Inl (ValueError (''Invalid quantity: '' @ py_str bi v)) else Inr n)
     | Inl e \<Rightarrow> Inl (except_value_type (''Invalid quantity: '' @ py_str bi v) e))"

text \<open>
  The same \<open>try\<close>/\<open>except\<close> shape for a price field: \<open>float(order[key])\<close>, rejected when
  \<open>bad\<close> holds of the number, with the message \<open>f"Invalid ...: ..."\<close>.
\<close>

definition parse_number ::
  "py_builtins \<Rightarrow> string \<Rightarrow> (pyfloat \<Rightarrow> bool) \<Rightarrow> py_value \<Rightarrow> py_error + pyfloat" where
  "parse_number bi label bad v =
    (case py_float bi v of
       Inr x \<Rightarrow> (if bad x then Inl (ValueError (''Invalid '' @ label @ '': '' @ py_str bi v)) else Inr x)
     | Inl e \<Rightarrow> Inl (except_value_type (''Invalid '' @ label @ '': '' @ py_str bi v) e))"

definition add_price ::
  "py_builtins \<Rightarrow> py_dict \<Rightarrow> string \<Rightarrow> string \<Rightarrow> py_dict \<Rightarrow> py_error + py_dict" where
  "add_price bi order otype key normalized =
    (if is_missing order key then Inl (ValueError (otype @ '' order requires '' @ key))
     else and_then (getitem order key) (\<lambda>v.
          and_then (parse_number bi key (\<lambda>x. fle x (Finite 0)) v) (\<lambda>x.
          Inr (normalized(key \<mapsto> PyFloat x)))))"

text \<open>
  The \<open>TRAIL\<close> block. Its comment reads \<open>Must have either trail_percent or trail_amount
  (but not both)\<close>; the code raises when neither is given and then reads each one that
  is given.
\<close>

definition add_trail :: "py_builtins \<Rightarrow> py_dict \<Rightarrow> py_dict \<Rightarrow> py_error + py_dict" where
  "add_trail bi order normalized =
    (let has_percent = \<not> is_missing order ''trail_percent'';
         has_amount = \<not> is_missing order ''trail_amount''
     in if \<not> has_percent \<and> \<not> has_amount
        then Inl (ValueError ''TRAIL order requires either trail_percent or trail_amount'')
        else
          and_then
            (if has_percent
             then and_then (getitem order ''trail_percent'') (\<lambda>v.
                  and_then (parse_number bi ''trail_percent'' (\<lambda>x. fle x (Finite 0) \<or> fgt x (Finite 100)) v) (\<lambda>x.
                  Inr (normalized(''trail_percent'' \<mapsto> PyFloat x))))
             else Inr normalized)
            (\<lambda>normalized.
               if has_amount
               then and_then (getitem order ''trail_amount'') (\<lambda>v.
                    and_then (parse_number bi ''trail_amount'' (\<lambda>x. fle x (Finite 0)) v) (\<lambda>x.
                    Inr (normalized(''trail_amount'' \<mapsto> PyFloat x))))
               else Inr normalized))"

text \<open>The options block: required fields, expiry format, strike, option type or right.
  The two \<open>if\<close>/\<open>elif\<close> chains that map \<open>CALL\<close>, \<open>PUT\<close>, \<open>C\<close> and \<open>P\<close> test the same four disjoint
  cases, in two orders; \<open>option_right\<close> is both.\<close>

definition option_right :: "string \<Rightarrow> string \<Rightarrow> py_error + string" where
  "option_right label s =
    (if s = ''CALL'' then Inr ''C''
     else if s = ''PUT'' then Inr ''P''
     else if s \<in> set [''C'', ''P''] then Inr s
     else Inl (ValueError (''Invalid '' @ label @ '': '' @ s)))"

definition add_option :: "py_builtins \<Rightarrow> py_dict \<Rightarrow> py_dict \<Rightarrow> py_error + py_dict" where
  "add_option bi order normalized =
    and_then (check_required ''Option order missing required field: '' order [''expiry'', ''strike'']) (\<lambda>_.
    if is_missing order ''option_type'' \<and> order ''right'' = None
    then Inl (ValueError ''Option order missing required field: option_type'')
    else
      and_then (getitem order ''expiry'') (\<lambda>ev.
      let expiry = py_str bi ev in
      if \<not> strptime_ymd bi expiry
      then Inl (ValueError (''Invalid expiry date format: '' @ expiry @ ''. Use YYYY-MM-DD''))
      else
        and_then (getitem order ''strike'') (\<lambda>sv.
        and_then (parse_number bi ''strike price'' (\<lambda>x. fle x (Finite 0)) sv) (\<lambda>strike.
        and_then
          (case order ''option_type'' of
             Some ov \<Rightarrow> option_right ''option_type'' (upper (py_str bi ov))
           | None \<Rightarrow>
               (case order ''right'' of
                  Some rv \<Rightarrow> option_right ''right'' (upper (py_str bi rv))
                | None \<Rightarrow> Inr []))
          (\<lambda>option_type.
             if option_type = []
             then Inl (ValueError ''Option order must specify option_type (CALL/PUT) or right (C/P)'')
             else Inr (normalized(''expiry'' \<mapsto> PyStr expiry, ''strike'' \<mapsto> PyFloat strike,
                         ''option_type'' \<mapsto> PyStr option_type, ''right'' \<mapsto> PyStr option_type)))))))"

fun add_optional :: "py_dict \<Rightarrow> string list \<Rightarrow> py_dict \<Rightarrow> py_dict" where
  "add_optional order [] normalized = normalized"
| "add_optional order (field # rest) normalized =
    add_optional order rest
      (if is_missing order field then normalized else normalized(field := order field))"

definition order_type_map :: "(string \<times> string) list" where
  "order_type_map =
    [(''MARKET'', ''MKT''), (''LIMIT'', ''LMT''), (''STOP'', ''STP''),
     (''STOP_LIMIT'', ''STP LMT''), (''TRAILING_STOP'', ''TRAIL'')]"

definition validate_order :: "py_builtins \<Rightarrow> py_dict \<Rightarrow> py_error + py_dict" where
  "validate_order bi order =
    and_then (check_required ''Order missing required field: '' order [''symbol'', ''action'', ''quantity'']) (\<lambda>_.
    and_then (getitem order ''action'') (\<lambda>av.
    let action = upper (py_str bi av) in
    if action \<notin> set [''BUY'', ''SELL'']
    then Inl (ValueError (''Invalid action: '' @ action @ ''. Must be BUY or SELL''))
    else
      and_then (getitem order ''quantity'') (\<lambda>qv.
      and_then (parse_quantity bi qv) (\<lambda>quantity.
      and_then (get_upper order ''asset_type'' ''STOCK'') (\<lambda>asset_type.
      if asset_type \<notin> set [''STOCK'', ''OPTION'']
      then Inl (ValueError (''Invalid asset_type: '' @ asset_type))
      else
        and_then (getitem order ''symbol'') (\<lambda>sv.
        and_then (get_upper order ''order_type'' ''MARKET'') (\<lambda>raw_type.
        and_then (get_upper order ''time_in_force'' ''DAY'') (\<lambda>tif.
        let order_type = (case map_of order_type_map raw_type of Some t \<Rightarrow> t | None \<Rightarrow> raw_type);
            normalized =
              [''symbol'' \<mapsto> PyStr (upper (py_str bi sv)), ''action'' \<mapsto> PyStr action,
               ''quantity'' \<mapsto> PyInt quantity, ''asset_type'' \<mapsto> PyStr asset_type,
               ''order_type'' \<mapsto> PyStr order_type, ''time_in_force'' \<mapsto> PyStr tif]
        in
        if order_type \<notin> set [''MKT'', ''LMT'', ''STP'', ''STP LMT'', ''TRAIL'']
        then Inl (ValueError (''Invalid order_type: '' @ order_type))
        else
          and_then (if order_type \<in> set [''LMT'', ''STP LMT'']
                    then add_price bi order order_type ''limit_price'' normalized
                    else Inr normalized) (\<lambda>normalized.
          and_then (if order_type \<in> set [''STP'', ''STP LMT'']
                    then add_price bi order order_type ''stop_price'' normalized
                    else Inr normalized) (\<lambda>normalized.
          and_then (if order_type = ''TRAIL''
                    then add_trail bi order normalized
                    else Inr normalized) (\<lambda>normalized.
          and_then (if asset_type = ''OPTION''
                    then add_option bi order normalized
                    else Inr normalized) (\<lambda>normalized.
          Inr (add_optional order [''strategy_name'', ''leg_group_id'', ''notes''] normalized)))))))))))))"

text \<open>\<open>Broker.validate_ibkr_order_type\<close> of \<open>gallump/core/broker.py\<close>: key presence only.\<close>

definition validate_ibkr_order_type :: "string \<Rightarrow> py_dict \<Rightarrow> bool" where
  "validate_ibkr_order_type otype order_params =
    (if otype = ''TRAIL''
     then order_params ''trail_amount'' \<noteq> None \<or> order_params ''trail_percent'' \<noteq> None
     else if otype = ''STP LMT''
     then list_all (\<lambda>k. order_params k \<noteq> None) [''limit_price'', ''stop_price'']
     else if otype \<in> set [''PEGMKT'', ''PEGMID'']
     then order_params ''offset_amount'' \<noteq> None
     else if otype \<in> set [''MIT'', ''LIT'']
     then order_params ''stop_price'' \<noteq> None
     else True)"

section \<open>Order validation: \<open>gallump_next/execution/order_validator.py\<close>\<close>

text \<open>
  \<open>OrderValidator.validate\<close> reads a typed \<open>Order\<close>. The module it imports the types
  from, \<open>gallump_next.core.types\<close>, is not among the sources; the declarations of
  \<open>OrderAction\<close>, \<open>OrderType\<close>, \<open>TimeInForce\<close>, \<open>AssetType\<close> and \<open>Order\<close> are those of
  \<open>gallump2_trading/core/types.py\<close>. A \<open>Decimal\<close> is a real number.
\<close>

datatype OrderAction = BUY | SELL

datatype OrderType = MARKET | LIMIT | STOP | STOP_LIMIT | TRAILING_STOP

datatype TimeInForce = DAY | GTC | IOC | FOK

datatype AssetType = STOCK | OPTION | FUTURE | FOREX | CRYPTO

record Order =
  symbol :: string
  action :: OrderAction
  quantity :: real
  order_type :: OrderType
  limit_price :: "real option"
  stop_price :: "real option"
  trail_amount :: "real option"
  trail_percent :: "real option"
  time_in_force :: TimeInForce
  asset_type :: AssetType

text \<open>Truthiness of an \<open>Optional[Decimal]\<close>: neither \<open>None\<close> nor zero.\<close>

definition truthy :: "real option \<Rightarrow> bool" where
  "truthy d \<longleftrightarrow> d \<noteq> None \<and> d \<noteq> Some 0"

text \<open>\<open>not d or d <= 0\<close>, and \<open>d > bound\<close>, which raises \<open>TypeError\<close> on \<open>None\<close>.\<close>

definition not_positive :: "real option \<Rightarrow> bool" where
  "not_positive d = (case d of None \<Rightarrow> True | Some p \<Rightarrow> p = 0 \<or> p \<le> 0)"

definition exceeds :: "real option \<Rightarrow> real \<Rightarrow> py_error + bool" where
  "exceeds d bound = (case d of None \<Rightarrow> Inl TypeError | Some p \<Rightarrow> Inr (p > bound))"

definition action_str :: "OrderAction \<Rightarrow> string" where
  "action_str a = (case a of BUY \<Rightarrow> ''OrderAction.BUY'' | SELL \<Rightarrow> ''OrderAction.SELL'')"

definition trailing_errors :: "Order \<Rightarrow> string list" where
  "trailing_errors order =
    (if \<not> truthy (trail_amount order) \<and> \<not> truthy (trail_percent order)
     then [''Trailing stop requires amount or percent''] else [])
    @ (if truthy (trail_amount order) \<and> truthy (trail_percent order)
       then [''Trailing stop cannot have both amount and percent''] else [])
    @ (case trail_amount order of
         None \<Rightarrow> []
       | Some a \<Rightarrow>
           if a = 0 then []
           else (if a \<le> 0 then [''Trail amount must be positive''] else [])
              @ (if a > 1000 then [''Trail amount exceeds maximum (1000)''] else []))
    @ (case trail_percent order of
         None \<Rightarrow> []
       | Some p \<Rightarrow>
           if p = 0 then []
           else (if p \<le> 0 then [''Trail percent must be positive''] else [])
              @ (if p > 50 then [''Trail percent exceeds maximum (50%)''] else []))"

definition validate :: "Order \<Rightarrow> py_error + bool \<times> string list" where
  "validate order =
    (let errors =
       (if quantity order \<le> 0 then [''Quantity must be positive''] else [])
       @ (if quantity order > 100000 then [''Quantity exceeds maximum allowed (100,000)''] else [])
       @ (if symbol order = [] then [''Symbol is required''] else [])
       @ (if length (symbol order) > 10 then [''Symbol is too long (max 10 characters)''] else [])
       @ (if action order \<notin> set [BUY, SELL]
          then [''Invalid action: '' @ action_str (action order)] else [])
     in
     and_then
       (if order_type order = LIMIT
        then and_then (exceeds (limit_price order) 100000) (\<lambda>too_high.
             Inr (errors
               @ (if not_positive (limit_price order)
                  then [''Limit orders require valid limit price''] else [])
               @ (if too_high then [''Limit price exceeds maximum (100,000)''] else [])))
        else Inr errors) (\<lambda>errors.
     and_then
       (if order_type order \<in> set [STOP, STOP_LIMIT]
        then and_then (exceeds (stop_price order) 100000) (\<lambda>too_high.
             Inr (errors
               @ (if not_positive (stop_price order)
                  then [''Stop orders require valid stop price''] else [])
               @ (if too_high then [''Stop price exceeds maximum (100,000)''] else [])))
        else Inr errors) (\<lambda>errors.
     let errors = errors
       @ (if order_type order = STOP_LIMIT \<and> not_positive (limit_price order)
          then [''Stop limit orders require valid limit price''] else [])
       @ (if order_type order = TRAILING_STOP then trailing_errors order else [])
       @ (if order_type order = MARKET
          then (if truthy (limit_price order)
                then [''Market orders should not have limit price''] else [])
             @ (if truthy (stop_price order)
                then [''Market orders should not have stop price''] else [])
          else [])
     in Inr (errors = [], errors))))"

section \<open>Risk gate: \<open>gallump/core/risk.py\<close>\<close>


record Trade =
  asset_type :: string
  price :: pyfloat
  quantity :: pyfloat

text \<open>
  The two warnings are f-strings that print the numbers they are built from:
  \<open>Position too large: {position_pct:.1%} > {max_position_pct:.1%}\<close> and
  \<open>Too many concurrent positions: {len(positions)} (max {max_positions})\<close>.
  The model keeps the numbers and leaves the formatting out.
\<close>

datatype warning =
  PositionTooLarge pyfloat pyfloat
| TooManyPositions nat int

record RiskResult =
  approved :: bool
  position_size :: pyfloat
  stop_loss :: pyfloat
  max_loss :: pyfloat
  warnings :: "warning list"





section \<open>Verified properties: risk gate\<close>

subsection \<open>Evaluating floats\<close>

lemmas float_eval =
  round64_def exponent_def pow2_def scale_up_def scale_down_def round_half_even_def Let_def

text \<open>
  \<open>round64\<close> on ties (to the even significand), on subnormal numbers and at the
  overflow threshold.
\<close>

lemma round64_ties:
  "round64 (2 ^ 53 + 1) = Finite (2 ^ 53)"
  "round64 (2 ^ 53 + 3) = Finite (2 ^ 53 + 4)"
  "round64 (1 + 1 / 2 ^ 53) = Finite 1"
  "round64 (1 + 3 / 2 ^ 53) = Finite (1 + 4 / 2 ^ 53)"
  by (simp_all add: float_eval)

lemma round64_subnormal:
  "round64 (1 / 2 ^ 1074) = Finite (1 / 2 ^ 1074)"
  "round64 (1 / 2 ^ 1075) = Finite 0"
  "round64 (3 / 2 ^ 1075) = Finite (2 / 2 ^ 1074)"
  by (simp_all add: float_eval)

lemma round64_overflow:
  "round64 (2 ^ 1024 - 2 ^ 970) = PosInf"
  "round64 (2 ^ 1024 - 2 ^ 970 - 1) = Finite (2 ^ 1024 - 2 ^ 971)"
  "round64 (- (2 ^ 1024)) = NegInf"
  by (simp_all add: float_eval)







subsection \<open>Degenerate inputs\<close>




subsection \<open>Position size\<close>







section \<open>Verified properties: order store\<close>

subsection \<open>The two statements of a reconcile pass\<close>

lemma update_filled_seq [simp]:
  "pending_orders_seq (fold (update_filled now) ids st) = pending_orders_seq st"
  by (induction ids arbitrary: st) (simp_all add: update_filled_def)

lemma set_filled_order_id [simp]: "order_id (columns (set_filled now r)) = order_id (columns r)"
  by (simp add: set_filled_def)

lemma set_filled_status [simp]: "status (columns (set_filled now r)) = ''Filled''"
  by (simp add: set_filled_def)

lemma set_filled_row:
  "set_filled now r =
      \<lparr>row_id = row_id r, columns = (columns r)\<lparr>status := ''Filled''\<rparr>, last_updated = now\<rparr>"
  by (cases r) (simp add: set_filled_def)

lemma update_filled_rows:
  "pending_orders (update_filled now x st) =
    map (\<lambda>r. if order_id (columns r) = x \<and> status (columns r) \<notin> set [''Filled'', ''Cancelled'']
             then set_filled now r else r)
      (pending_orders st)"
  by (simp add: update_filled_def)

lemma fold_update_filled_rows:
  "pending_orders (fold (update_filled now) ids st) =
    map (\<lambda>r. if order_id (columns r) \<in> set ids \<and> status (columns r) \<notin> set [''Filled'', ''Cancelled'']
             then set_filled now r else r)
      (pending_orders st)"
proof (induction ids arbitrary: st)
  case Nil
  show ?case by (simp add: map_idI)
next
  case (Cons x xs)
  have "pending_orders (fold (update_filled now) (x # xs) st) =
        pending_orders (fold (update_filled now) xs (update_filled now x st))"
    by simp
  also have "\<dots> = map (\<lambda>r. if order_id (columns r) \<in> set xs \<and> status (columns r) \<notin> set [''Filled'', ''Cancelled'']
             then set_filled now r else r) (pending_orders (update_filled now x st))"
    by (rule Cons.IH)
  also have "\<dots> = map (\<lambda>r. if order_id (columns r) \<in> set (x # xs) \<and> status (columns r) \<notin> set [''Filled'', ''Cancelled'']
             then set_filled now r else r) (pending_orders st)"
    unfolding update_filled_rows map_map by (rule map_cong) auto
  finally show ?case .
qed

lemma insert_or_replace_rows:
  "pending_orders (insert_or_replace now x st) =
    filter (\<lambda>r. order_id (columns r) \<noteq> order_id x) (pending_orders st)
    @ [\<lparr>row_id = Suc (fold max (map row_id (pending_orders st)) (pending_orders_seq st)),
        columns = x, last_updated = now\<rparr>]"
  by (simp add: insert_or_replace_def Let_def)

lemma fold_insert_outside:
  "filter (\<lambda>r. order_id (columns r) \<notin> set (map order_id live))
      (pending_orders (fold (insert_or_replace now) live st)) =
   filter (\<lambda>r. order_id (columns r) \<notin> set (map order_id live)) (pending_orders st)"
proof (induction live arbitrary: st rule: rev_induct)
  case Nil
  show ?case by simp
next
  case (snoc x xs)
  have "filter (\<lambda>r. order_id (columns r) \<notin> set (map order_id (xs @ [x])))
          (pending_orders (fold (insert_or_replace now) (xs @ [x]) st)) =
        filter (\<lambda>r. order_id (columns r) \<noteq> order_id x)
          (filter (\<lambda>r. order_id (columns r) \<notin> set (map order_id xs))
             (pending_orders (fold (insert_or_replace now) xs st)))"
    by (auto simp add: insert_or_replace_rows intro: filter_cong)
  also have "\<dots> = filter (\<lambda>r. order_id (columns r) \<noteq> order_id x)
          (filter (\<lambda>r. order_id (columns r) \<notin> set (map order_id xs)) (pending_orders st))"
    by (simp only: snoc.IH)
  also have "\<dots> = filter (\<lambda>r. order_id (columns r) \<notin> set (map order_id (xs @ [x]))) (pending_orders st)"
    by (auto intro: filter_cong)
  finally show ?case .
qed

lemma fold_insert_key:
  "x \<in> set live \<Longrightarrow>
   \<exists>i. filter (\<lambda>r. order_id (columns r) = order_id x)
          (pending_orders (fold (insert_or_replace now) live st)) =
        [\<lparr>row_id = i, columns = last (filter (\<lambda>y. order_id y = order_id x) live),
          last_updated = now\<rparr>]"
proof (induction live arbitrary: st rule: rev_induct)
  case Nil
  then show ?case by simp
next
  case (snoc y ys)
  show ?case
  proof (cases "order_id y = order_id x")
    case True
    then show ?thesis
      by (simp add: insert_or_replace_rows)
  next
    case False
    with snoc.prems have "x \<in> set ys" by auto
    from snoc.IH [OF this, of st] obtain i where
      "filter (\<lambda>r. order_id (columns r) = order_id x)
          (pending_orders (fold (insert_or_replace now) ys st)) =
        [\<lparr>row_id = i, columns = last (filter (\<lambda>y. order_id y = order_id x) ys),
          last_updated = now\<rparr>]" by blast
    moreover have "filter (\<lambda>r. order_id (columns r) = order_id x)
          (filter (\<lambda>r. order_id (columns r) \<noteq> order_id y) rs) =
          filter (\<lambda>r. order_id (columns r) = order_id x) rs" for rs :: "db_row list"
      using False by (auto intro: filter_cong)
    ultimately show ?thesis using False
      by (simp add: insert_or_replace_rows)
  qed
qed

lemma fold_insert_columns:
  "map columns (pending_orders (fold (insert_or_replace now) live st)) =
   map columns (filter (\<lambda>r. order_id (columns r) \<notin> set (map order_id live)) (pending_orders st))
   @ map columns (pending_orders (fold (insert_or_replace now') live
        \<lparr>pending_orders = [], pending_orders_seq = 0\<rparr>))"
proof (induction live arbitrary: st rule: rev_induct)
  case Nil
  show ?case by simp
next
  case (snoc x xs)
  have a: "filter (\<lambda>c. order_id c \<noteq> order_id x)
             (map columns (filter (\<lambda>r. order_id (columns r) \<notin> set (map order_id xs)) rs)) =
           map columns (filter (\<lambda>r. order_id (columns r) \<notin> set (map order_id (xs @ [x]))) rs)"
    for rs :: "db_row list"
    by (induction rs) auto
  have "map columns (pending_orders (fold (insert_or_replace now) (xs @ [x]) st)) =
        filter (\<lambda>c. order_id c \<noteq> order_id x)
          (map columns (pending_orders (fold (insert_or_replace now) xs st))) @ [x]"
    by (simp add: insert_or_replace_rows filter_map comp_def)
  also have "\<dots> = filter (\<lambda>c. order_id c \<noteq> order_id x)
          (map columns (filter (\<lambda>r. order_id (columns r) \<notin> set (map order_id xs)) (pending_orders st))
           @ map columns (pending_orders (fold (insert_or_replace now') xs
                \<lparr>pending_orders = [], pending_orders_seq = 0\<rparr>))) @ [x]"
    by (simp only: snoc.IH)
  also have "\<dots> =
          map columns (filter (\<lambda>r. order_id (columns r) \<notin> set (map order_id (xs @ [x]))) (pending_orders st))
          @ map columns (pending_orders (fold (insert_or_replace now') (xs @ [x])
                \<lparr>pending_orders = [], pending_orders_seq = 0\<rparr>))"
    by (simp only: filter_append a insert_or_replace_rows fold_append comp_apply fold_simps map_append append_assoc) (simp add: filter_map comp_def)
  finally show ?case .
qed

lemma sync_unfold:
  "sync_pending_orders now live st =
    fold (insert_or_replace now) live
      (fold (update_filled now)
         (filter (\<lambda>i. i \<notin> set (map order_id live)) (remdups (select_active_order_ids st))) st)"
  by (simp add: sync_pending_orders_def Let_def)

lemma missing_mem_general:
  "i \<in> set (filter (\<lambda>i. i \<notin> L) (remdups (map f (filter P rows)))) \<longleftrightarrow>
     (\<exists>r\<in>set rows. P r \<and> f r = i) \<and> i \<notin> L"
  by auto

lemma missing_ids_mem:
  "i \<in> set (filter (\<lambda>i. i \<notin> set (map order_id live)) (remdups (select_active_order_ids st))) \<longleftrightarrow>
    (\<exists>r\<in>set (pending_orders st).
        status (columns r) \<in> set [''PendingSubmit'', ''PreSubmitted'', ''Submitted'', ''PendingCancel'']
        \<and> order_id (columns r) = i)
    \<and> i \<notin> set (map order_id live)"
  unfolding select_active_order_ids_def by (rule missing_mem_general)

lemma sync_outside:
  "filter (\<lambda>r. order_id (columns r) \<notin> set (map order_id live))
      (pending_orders (sync_pending_orders now live st)) =
   filter (\<lambda>r. order_id (columns r) \<notin> set (map order_id live))
      (map (\<lambda>r. if order_id (columns r) \<in>
                   set (filter (\<lambda>i. i \<notin> set (map order_id live)) (remdups (select_active_order_ids st)))
                 \<and> status (columns r) \<notin> set [''Filled'', ''Cancelled'']
               then set_filled now r else r)
        (pending_orders st))"
  unfolding sync_unfold fold_insert_outside fold_update_filled_rows ..

lemma in_filter_mapI: "r \<in> set rows \<Longrightarrow> g r = r' \<Longrightarrow> P r' \<Longrightarrow> r' \<in> set (filter P (map g rows))"
  by auto

lemma in_filter_mapE: "r \<in> set (filter P (map g rows)) \<Longrightarrow> \<exists>q \<in> set rows. r = g q \<and> P r"
  by auto

lemma in_filterD: "r \<in> set (filter P rows) \<Longrightarrow> r \<in> set rows"
  by simp

lemma active_not_terminal:
  "s \<in> set [''PendingSubmit'', ''PreSubmitted'', ''Submitted'', ''PendingCancel''] \<Longrightarrow>
   s \<notin> set [''Filled'', ''Cancelled'']"
  by auto

lemma filled_not_active:
  "''Filled'' \<notin> set [''PendingSubmit'', ''PreSubmitted'', ''Submitted'', ''PendingCancel'']"
  by simp

lemma filter_key_distinct:
  "distinct (map f xs) \<Longrightarrow> x \<in> set xs \<Longrightarrow> filter (\<lambda>y. f y = f x) xs = [x]"
proof (induction xs)
  case Nil
  then show ?case by simp
next
  case (Cons a xs)
  show ?case
  proof (cases "a = x")
    case True
    with Cons.prems have "f x \<notin> f ` set xs" by simp
    then have "\<forall>y\<in>set xs. f y \<noteq> f x" by (metis imageI)
    then have "filter (\<lambda>y. f y = f x) xs = []" by (simp add: filter_empty_conv)
    with True show ?thesis by simp
  next
    case False
    with Cons.prems have "x \<in> set xs" "f a \<noteq> f x" by auto
    with Cons show ?thesis by simp
  qed
qed

lemma order_id_new [simp]: "order_id (new_PendingOrder t oid smb act qty otype) = oid"
  by (simp add: new_PendingOrder_def)

lemma status_new [simp]: "status (new_PendingOrder t oid smb act qty otype) = ''PendingSubmit''"
  by (simp add: new_PendingOrder_def)

lemma filled_quantity_new [simp]: "filled_quantity (new_PendingOrder t oid smb act qty otype) = 0"
  by (simp add: new_PendingOrder_def)

lemma update_filled_order_ids:
  "map (\<lambda>r. order_id (columns r)) (pending_orders (update_filled now x st)) =
   map (\<lambda>r. order_id (columns r)) (pending_orders st)"
  unfolding update_filled_rows map_map by (rule map_cong) simp_all

lemma update_filled_unique: "unique_order_ids st \<Longrightarrow> unique_order_ids (update_filled now x st)"
  by (simp only: unique_order_ids_def update_filled_order_ids)

lemma insert_or_replace_unique: "unique_order_ids st \<Longrightarrow> unique_order_ids (insert_or_replace now x st)"
  by (auto simp add: unique_order_ids_def insert_or_replace_rows distinct_map_filter)

lemma fold_preserves:
  "(\<And>x s. P s \<Longrightarrow> P (f x s)) \<Longrightarrow> P s \<Longrightarrow> P (fold f xs s)"
  by (induction xs arbitrary: s) simp_all

lemma sync_preserves_unique_order_ids:
  "unique_order_ids st \<Longrightarrow> unique_order_ids (sync_pending_orders now live st)"
  unfolding sync_unfold
  by (intro fold_preserves [where P = unique_order_ids] insert_or_replace_unique update_filled_unique)

lemma sync_no_active_outside:
  assumes "r \<in> set (pending_orders (sync_pending_orders now live st))"
    and "order_id (columns r) \<notin> set (map order_id live)"
  shows "status (columns r) \<notin> set [''PendingSubmit'', ''PreSubmitted'', ''Submitted'', ''PendingCancel'']"
proof -
  let ?missing = "filter (\<lambda>i. i \<notin> set (map order_id live)) (remdups (select_active_order_ids st))"
  let ?G = "\<lambda>r. if order_id (columns r) \<in> set ?missing \<and> status (columns r) \<notin> set [''Filled'', ''Cancelled'']
               then set_filled now r else r"
  from assms have "r \<in> set (filter (\<lambda>r. order_id (columns r) \<notin> set (map order_id live))
      (pending_orders (sync_pending_orders now live st)))" by simp
  then have "r \<in> set (filter (\<lambda>r. order_id (columns r) \<notin> set (map order_id live))
      (map ?G (pending_orders st)))" unfolding sync_outside .
  from in_filter_mapE [OF this] obtain q where q: "q \<in> set (pending_orders st)" "r = ?G q" by blast
  show ?thesis
  proof (cases "order_id (columns q) \<in> set ?missing \<and> status (columns q) \<notin> set [''Filled'', ''Cancelled'']")
    case True
    then have "?G q = set_filled now q" by (rule if_P)
    with q(2) have "r = set_filled now q" by (rule trans)
    then have "status (columns r) = ''Filled''" by (simp only: set_filled_status)
    then show ?thesis by (simp only: filled_not_active not_False_eq_True)
  next
    case False
    then have "?G q = q" by (rule if_not_P)
    with q(2) have rq: "r = q" by (rule trans)
    show ?thesis
    proof
      assume act: "status (columns r) \<in> set [''PendingSubmit'', ''PreSubmitted'', ''Submitted'', ''PendingCancel'']"
      with rq q(1) assms(2) have "order_id (columns q) \<in> set ?missing"
        unfolding missing_ids_mem by blast
      moreover from act have "status (columns r) \<notin> set [''Filled'', ''Cancelled'']"
        by (rule active_not_terminal)
      ultimately show False using False rq by blast
    qed
  qed
qed

lemma sync_second_pass_no_missing:
  "filter (\<lambda>i. i \<notin> set (map order_id live))
     (remdups (select_active_order_ids (sync_pending_orders now live st))) = []"
proof -
  have "i \<notin> set (filter (\<lambda>i. i \<notin> set (map order_id live))
     (remdups (select_active_order_ids (sync_pending_orders now live st))))" for i
    unfolding missing_ids_mem using sync_no_active_outside [of _ now live st] by blast
  then show ?thesis by (meson last_in_set)
qed

lemma sync_marks_row:
  assumes r: "r \<in> set (pending_orders st)"
    and a: "status (columns r) \<in> set [''PendingSubmit'', ''PreSubmitted'', ''Submitted'', ''PendingCancel'']
      \<and> order_id (columns r) \<notin> set (map order_id live)"
  shows "set_filled now r \<in> set (pending_orders (sync_pending_orders now live st))"
proof -
  let ?missing = "filter (\<lambda>i. i \<notin> set (map order_id live)) (remdups (select_active_order_ids st))"
  let ?G = "\<lambda>r. if order_id (columns r) \<in> set ?missing \<and> status (columns r) \<notin> set [''Filled'', ''Cancelled'']
               then set_filled now r else r"
  from r a have m: "order_id (columns r) \<in> set ?missing"
    unfolding missing_ids_mem by blast
  from a have act: "status (columns r) \<in> set [''PendingSubmit'', ''PreSubmitted'', ''Submitted'', ''PendingCancel'']"
    by (rule conjunct1)
  from act have nt: "status (columns r) \<notin> set [''Filled'', ''Cancelled'']"
    by (rule active_not_terminal)
  from m nt have g: "?G r = set_filled now r" by (rule if_P [OF conjI])
  from a have out: "order_id (columns (set_filled now r)) \<notin> set (map order_id live)"
    by (simp only: set_filled_order_id simp_thms)
  have "set_filled now r \<in> set (filter (\<lambda>r. order_id (columns r) \<notin> set (map order_id live))
      (map ?G (pending_orders st)))"
    using r g out by (rule in_filter_mapI)
  then have "set_filled now r \<in> set (filter (\<lambda>r. order_id (columns r) \<notin> set (map order_id live))
      (pending_orders (sync_pending_orders now live st)))"
    unfolding sync_outside .
  then show ?thesis by (rule in_filterD)
qed

subsection \<open>The status-only pass\<close>

text \<open>
  \<open>sync_order_statuses\<close> keeps the rows of the table, their ids and their order ids: it
  never inserts or deletes. In a table with unique order ids the loop step of a row's
  own \<open>db_order\<close> is the only one that touches the row.
\<close>

lemma set_status_order_id [simp]:
  "order_id (columns (set_status now ns fq avg r)) = order_id (columns r)"
  by (cases fq; cases avg) (simp_all add: set_status_def)

lemma set_status_row_id [simp]: "row_id (set_status now ns fq avg r) = row_id r"
  by (cases fq; cases avg) (simp_all add: set_status_def)

lemma set_status_filled:
  "set_status now ''Filled'' None None r =
    \<lparr>row_id = row_id r, columns = (columns r)\<lparr>status := ''Filled''\<rparr>, last_updated = now\<rparr>"
  by (cases r) (simp add: set_status_def)

lemma sync_one_rows:
  "pending_orders (sync_one now m x st) =
    map (\<lambda>r. if order_id (columns r) = order_id x
             then (case sync_action m x of
                     Some (ns, fq, avg) \<Rightarrow> set_status now ns fq avg r
                   | None \<Rightarrow> r)
             else r)
      (pending_orders st)"
  by (cases "sync_action m x") (auto simp add: sync_one_def update_order_status_def map_idI)

lemma sync_one_keys:
  "map (\<lambda>r. (row_id r, order_id (columns r))) (pending_orders (sync_one now m x st)) =
   map (\<lambda>r. (row_id r, order_id (columns r))) (pending_orders st)"
  unfolding sync_one_rows map_map
  by (rule map_cong) (auto split: option.split)

lemma fold_sync_one_keys:
  "map (\<lambda>r. (row_id r, order_id (columns r))) (pending_orders (fold (sync_one now m) xs st)) =
   map (\<lambda>r. (row_id r, order_id (columns r))) (pending_orders st)"
  by (induction xs arbitrary: st) (simp_all add: sync_one_keys)

lemma sync_order_statuses_keys:
  "map (\<lambda>r. (row_id r, order_id (columns r))) (pending_orders (sync_order_statuses now live st)) =
   map (\<lambda>r. (row_id r, order_id (columns r))) (pending_orders st)"
  by (simp add: sync_order_statuses_def fold_sync_one_keys)

lemma fold_sync_one_other:
  "\<forall>x \<in> set xs. order_id x \<noteq> order_id (columns r) \<Longrightarrow> r \<in> set (pending_orders st) \<Longrightarrow>
   r \<in> set (pending_orders (fold (sync_one now m) xs st))"
proof (induction xs arbitrary: st)
  case Nil
  then show ?case by simp
next
  case (Cons x xs)
  from Cons.prems have ne: "order_id (columns r) \<noteq> order_id x" by auto
  have "r \<in> set (pending_orders (sync_one now m x st))"
    unfolding sync_one_rows set_map
    by (rule image_eqI [where x = r]) (simp_all add: ne Cons.prems)
  with Cons.IH [of "sync_one now m x st"] Cons.prems show ?case by simp
qed

lemma fold_sync_one_own:
  "distinct (map order_id xs) \<Longrightarrow> columns r \<in> set xs \<Longrightarrow> r \<in> set (pending_orders st) \<Longrightarrow>
   (case sync_action m (columns r) of
      Some (ns, fq, avg) \<Rightarrow> set_status now ns fq avg r
    | None \<Rightarrow> r) \<in> set (pending_orders (fold (sync_one now m) xs st))"
proof (induction xs arbitrary: st)
  case Nil
  then show ?case by simp
next
  case (Cons x xs)
  let ?r' = "case sync_action m (columns r) of
      Some (ns, fq, avg) \<Rightarrow> set_status now ns fq avg r | None \<Rightarrow> r"
  have oid: "order_id (columns ?r') = order_id (columns r)"
    by (simp split: option.split)
  show ?case
  proof (cases "x = columns r")
    case True
    have "?r' \<in> set (pending_orders (sync_one now m x st))"
      unfolding sync_one_rows set_map
      by (rule image_eqI [where x = r]) (simp_all add: True Cons.prems)
    moreover from Cons.prems True have "\<forall>y \<in> set xs. order_id y \<noteq> order_id (columns ?r')"
      unfolding oid by (metis distinct.simps(2) image_eqI list.simps(9) set_map)
    ultimately have "?r' \<in> set (pending_orders (fold (sync_one now m) xs (sync_one now m x st)))"
      by (intro fold_sync_one_other)
    then show ?thesis by simp
  next
    case False
    with Cons.prems have mem: "columns r \<in> set xs" by simp
    from Cons.prems mem have ne: "order_id (columns r) \<noteq> order_id x"
      by (metis distinct.simps(2) image_eqI list.simps(9) set_map)
    have "r \<in> set (pending_orders (sync_one now m x st))"
      unfolding sync_one_rows set_map
      by (rule image_eqI [where x = r]) (simp_all add: ne Cons.prems)
    with Cons.IH [of "sync_one now m x st"] Cons.prems mem show ?thesis by simp
  qed
qed

lemma live_status_map_absent:
  "oid \<notin> set (map order_id live) \<Longrightarrow> live_status_map live oid = None"
  by (simp add: live_status_map_def map_of_eq_None_iff image_image)

lemma sync_order_statuses_marks_row:
  assumes u: "unique_order_ids st"
    and r: "r \<in> set (pending_orders st)"
    and w: "status (columns r) \<in> set [''PendingSubmit'', ''PreSubmitted'', ''Submitted'']"
    and absent: "order_id (columns r) \<notin> set (map order_id live)"
  shows "\<lparr>row_id = row_id r, columns = (columns r)\<lparr>status := ''Filled''\<rparr>, last_updated = now\<rparr>
    \<in> set (pending_orders (sync_order_statuses now live st))"
proof -
  have d: "distinct (map order_id (map columns (pending_orders st)))"
    using u by (simp add: unique_order_ids_def comp_def)
  have mem: "columns r \<in> set (map columns (pending_orders st))" using r by simp
  have act: "sync_action (live_status_map live) (columns r) = Some (''Filled'', None, None)"
    using w by (simp add: sync_action_def live_status_map_absent [OF absent])
  from fold_sync_one_own [OF d mem r, where m = "live_status_map live" and now = now]
  show ?thesis
    unfolding sync_order_statuses_def Let_def act set_status_filled [symmetric] by simp
qed

subsection \<open>Reconcile\<close>

text \<open>
  Claim C2, as stated, fails in two ways. A row whose status is \<open>PartiallyFilled\<close>, a
  status that is not terminal, is outside the four statuses \<open>sync_pending_orders\<close> selects:
  when its order vanishes from the snapshot the pass leaves it \<open>PartiallyFilled\<close>. And the
  other reconcile pass, \<open>sync_order_statuses\<close>, never inserts: an order of the snapshot
  that the store does not hold is not written, and a vanished \<open>PendingCancel\<close> row is not
  marked.
\<close>

theorem reconcile_counterexample:
  "sync_pending_orders 7 []
      \<lparr>pending_orders = [\<lparr>row_id = 1,
          columns = (new_PendingOrder 0 ''1'' ''AAPL'' ''BUY'' 10 ''LMT'')
            \<lparr>status := ''PartiallyFilled'', filled_quantity := 4\<rparr>,
          last_updated = 0\<rparr>],
       pending_orders_seq = 1\<rparr> =
     \<lparr>pending_orders = [\<lparr>row_id = 1,
          columns = (new_PendingOrder 0 ''1'' ''AAPL'' ''BUY'' 10 ''LMT'')
            \<lparr>status := ''PartiallyFilled'', filled_quantity := 4\<rparr>,
          last_updated = 0\<rparr>],
       pending_orders_seq = 1\<rparr> \<and>
   sync_order_statuses 7 [new_PendingOrder 5 ''2'' ''MSFT'' ''SELL'' 5 ''MKT'']
      \<lparr>pending_orders = [], pending_orders_seq = 0\<rparr> =
     \<lparr>pending_orders = [], pending_orders_seq = 0\<rparr> \<and>
   sync_order_statuses 7 []
      \<lparr>pending_orders = [\<lparr>row_id = 1,
          columns = (new_PendingOrder 0 ''1'' ''AAPL'' ''BUY'' 10 ''LMT'')
            \<lparr>status := ''PendingCancel''\<rparr>,
          last_updated = 0\<rparr>],
       pending_orders_seq = 1\<rparr> =
     \<lparr>pending_orders = [\<lparr>row_id = 1,
          columns = (new_PendingOrder 0 ''1'' ''AAPL'' ''BUY'' 10 ''LMT'')
            \<lparr>status := ''PendingCancel''\<rparr>,
          last_updated = 0\<rparr>],
       pending_orders_seq = 1\<rparr>"
  by (simp add: sync_pending_orders_def select_active_order_ids_def sync_order_statuses_def
      sync_one_def sync_action_def live_status_map_def)

text \<open>
  Claim C2, amended to the statuses each pass selects. After \<open>Storage.sync_pending_orders\<close>:
  every row whose status is \<open>PendingSubmit\<close>, \<open>PreSubmitted\<close>, \<open>Submitted\<close> or \<open>PendingCancel\<close>
  and whose order id is absent from the snapshot is in the table with status \<open>Filled\<close> and
  \<open>last_updated\<close> set, its id and other columns unchanged; and for every order of the
  snapshot the table holds exactly one row keyed by its order id, carrying all 27 fields
  of the snapshot's entry for that id (the order itself when the snapshot's order ids
  are distinct, the last entry with that id in general). After
  \<open>Broker.sync_order_statuses\<close>, on a table with unique order ids: every row whose status
  is \<open>PendingSubmit\<close>, \<open>PreSubmitted\<close> or \<open>Submitted\<close> and whose order id is absent from the
  snapshot is marked \<open>Filled\<close> in the same way; this pass keeps the rows of the table,
  their ids and order ids, so it inserts nothing.
\<close>

theorem sync_marks_missing_and_upserts_live:
  "(\<forall>r \<in> set (pending_orders st).
      status (columns r) \<in> set [''PendingSubmit'', ''PreSubmitted'', ''Submitted'', ''PendingCancel'']
      \<and> order_id (columns r) \<notin> set (map order_id live)
      \<longrightarrow> \<lparr>row_id = row_id r, columns = (columns r)\<lparr>status := ''Filled''\<rparr>, last_updated = now\<rparr>
            \<in> set (pending_orders (sync_pending_orders now live st))) \<and>
   (\<forall>x \<in> set live. \<exists>i.
      filter (\<lambda>r. order_id (columns r) = order_id x) (pending_orders (sync_pending_orders now live st)) =
        [\<lparr>row_id = i, columns = last (filter (\<lambda>y. order_id y = order_id x) live), last_updated = now\<rparr>]) \<and>
   (distinct (map order_id live) \<longrightarrow>
     (\<forall>x \<in> set live. \<exists>i.
        filter (\<lambda>r. order_id (columns r) = order_id x) (pending_orders (sync_pending_orders now live st)) =
          [\<lparr>row_id = i, columns = x, last_updated = now\<rparr>])) \<and>
   (unique_order_ids st \<longrightarrow>
     (\<forall>r \<in> set (pending_orders st).
        status (columns r) \<in> set [''PendingSubmit'', ''PreSubmitted'', ''Submitted'']
        \<and> order_id (columns r) \<notin> set (map order_id live)
        \<longrightarrow> \<lparr>row_id = row_id r, columns = (columns r)\<lparr>status := ''Filled''\<rparr>, last_updated = now\<rparr>
              \<in> set (pending_orders (sync_order_statuses now live st)))) \<and>
   map (\<lambda>r. (row_id r, order_id (columns r))) (pending_orders (sync_order_statuses now live st)) =
     map (\<lambda>r. (row_id r, order_id (columns r))) (pending_orders st)"
proof (intro conjI ballI impI)
  fix r
  assume r: "r \<in> set (pending_orders st)"
    and a: "status (columns r) \<in> set [''PendingSubmit'', ''PreSubmitted'', ''Submitted'', ''PendingCancel'']
      \<and> order_id (columns r) \<notin> set (map order_id live)"
  from sync_marks_row [OF r a, of now]
  show "\<lparr>row_id = row_id r, columns = (columns r)\<lparr>status := ''Filled''\<rparr>, last_updated = now\<rparr>
      \<in> set (pending_orders (sync_pending_orders now live st))"
    unfolding set_filled_row .
next
  fix x assume "x \<in> set live"
  then show "\<exists>i. filter (\<lambda>r. order_id (columns r) = order_id x) (pending_orders (sync_pending_orders now live st)) =
        [\<lparr>row_id = i, columns = last (filter (\<lambda>y. order_id y = order_id x) live), last_updated = now\<rparr>]"
    unfolding sync_unfold by (rule fold_insert_key)
next
  fix x assume d: "distinct (map order_id live)" and x: "x \<in> set live"
  from filter_key_distinct [OF d x] have l: "last (filter (\<lambda>y. order_id y = order_id x) live) = x" by simp
  from fold_insert_key [OF x] show "\<exists>i. filter (\<lambda>r. order_id (columns r) = order_id x) (pending_orders (sync_pending_orders now live st)) =
          [\<lparr>row_id = i, columns = x, last_updated = now\<rparr>]"
    unfolding sync_unfold l .
next
  fix r
  assume "unique_order_ids st" "r \<in> set (pending_orders st)"
    "status (columns r) \<in> set [''PendingSubmit'', ''PreSubmitted'', ''Submitted'']
      \<and> order_id (columns r) \<notin> set (map order_id live)"
  then show "\<lparr>row_id = row_id r, columns = (columns r)\<lparr>status := ''Filled''\<rparr>, last_updated = now\<rparr>
      \<in> set (pending_orders (sync_order_statuses now live st))"
    by (intro sync_order_statuses_marks_row) (erule conjunct1 conjunct2 | assumption)+
next
  show "map (\<lambda>r. (row_id r, order_id (columns r))) (pending_orders (sync_order_statuses now live st)) =
     map (\<lambda>r. (row_id r, order_id (columns r))) (pending_orders st)"
    by (rule sync_order_statuses_keys)
qed

theorem sync_marks_missing_and_upserts_live_witness:
  "\<lparr>row_id = 1,
     columns = (new_PendingOrder 0 ''1'' ''AAPL'' ''BUY'' 10 ''LMT'')\<lparr>status := ''Filled''\<rparr>,
     last_updated = 7\<rparr>
     \<in> set (pending_orders (sync_pending_orders 7 [new_PendingOrder 5 ''2'' ''MSFT'' ''SELL'' 5 ''MKT'']
          \<lparr>pending_orders = [\<lparr>row_id = 1,
              columns = (new_PendingOrder 0 ''1'' ''AAPL'' ''BUY'' 10 ''LMT'')\<lparr>status := ''Submitted''\<rparr>,
              last_updated = 0\<rparr>],
            pending_orders_seq = 1\<rparr>)) \<and>
   (\<exists>i. filter (\<lambda>r. order_id (columns r) = ''2'')
        (pending_orders (sync_pending_orders 7 [new_PendingOrder 5 ''2'' ''MSFT'' ''SELL'' 5 ''MKT'']
          \<lparr>pending_orders = [\<lparr>row_id = 1,
              columns = (new_PendingOrder 0 ''1'' ''AAPL'' ''BUY'' 10 ''LMT'')\<lparr>status := ''Submitted''\<rparr>,
              last_updated = 0\<rparr>],
            pending_orders_seq = 1\<rparr>)) =
      [\<lparr>row_id = i, columns = new_PendingOrder 5 ''2'' ''MSFT'' ''SELL'' 5 ''MKT'', last_updated = 7\<rparr>]) \<and>
   \<lparr>row_id = 1,
     columns = (new_PendingOrder 0 ''1'' ''AAPL'' ''BUY'' 10 ''LMT'')\<lparr>status := ''Filled''\<rparr>,
     last_updated = 7\<rparr>
     \<in> set (pending_orders (sync_order_statuses 7 [new_PendingOrder 5 ''2'' ''MSFT'' ''SELL'' 5 ''MKT'']
          \<lparr>pending_orders = [\<lparr>row_id = 1,
              columns = (new_PendingOrder 0 ''1'' ''AAPL'' ''BUY'' 10 ''LMT'')\<lparr>status := ''Submitted''\<rparr>,
              last_updated = 0\<rparr>],
            pending_orders_seq = 1\<rparr>))"
  using sync_marks_missing_and_upserts_live [of
      "\<lparr>pending_orders = [\<lparr>row_id = 1,
              columns = (new_PendingOrder 0 ''1'' ''AAPL'' ''BUY'' 10 ''LMT'')\<lparr>status := ''Submitted''\<rparr>,
              last_updated = 0\<rparr>],
            pending_orders_seq = 1\<rparr>"
      "[new_PendingOrder 5 ''2'' ''MSFT'' ''SELL'' 5 ''MKT'']" 7]
  by (simp add: unique_order_ids_def)

text \<open>
  Claim C3, as stated, on the empty table and a snapshot of one order: the second pass
  deletes the row the first pass wrote and inserts it again under the next
  \<open>AUTOINCREMENT\<close> id, so the store after two passes differs from the store after one,
  even when both passes read the same \<open>CURRENT_TIMESTAMP\<close>.
\<close>

theorem sync_twice_differs_counterexample:
  "sync_pending_orders 100 [new_PendingOrder 5 ''2'' ''MSFT'' ''SELL'' 5 ''MKT'']
      \<lparr>pending_orders = [], pending_orders_seq = 0\<rparr> =
     \<lparr>pending_orders = [\<lparr>row_id = 1, columns = new_PendingOrder 5 ''2'' ''MSFT'' ''SELL'' 5 ''MKT'',
          last_updated = 100\<rparr>], pending_orders_seq = 1\<rparr> \<and>
   sync_pending_orders 100 [new_PendingOrder 5 ''2'' ''MSFT'' ''SELL'' 5 ''MKT'']
     (sync_pending_orders 100 [new_PendingOrder 5 ''2'' ''MSFT'' ''SELL'' 5 ''MKT'']
        \<lparr>pending_orders = [], pending_orders_seq = 0\<rparr>) =
     \<lparr>pending_orders = [\<lparr>row_id = 2, columns = new_PendingOrder 5 ''2'' ''MSFT'' ''SELL'' 5 ''MKT'',
          last_updated = 100\<rparr>], pending_orders_seq = 2\<rparr> \<and>
   sync_pending_orders 100 [new_PendingOrder 5 ''2'' ''MSFT'' ''SELL'' 5 ''MKT'']
     (sync_pending_orders 100 [new_PendingOrder 5 ''2'' ''MSFT'' ''SELL'' 5 ''MKT'']
        \<lparr>pending_orders = [], pending_orders_seq = 0\<rparr>) \<noteq>
   sync_pending_orders 100 [new_PendingOrder 5 ''2'' ''MSFT'' ''SELL'' 5 ''MKT'']
      \<lparr>pending_orders = [], pending_orders_seq = 0\<rparr>"
  by (simp add: sync_pending_orders_def select_active_order_ids_def insert_or_replace_def)

text \<open>
  Claim C3, amended. A second pass with the same snapshot leaves every order column of
  every row as the first pass left it, in the same row order, and leaves the rows whose
  order id is not in the snapshot untouched altogether; only the surrogate \<open>id\<close> and
  \<open>last_updated\<close> of the snapshot's rows (and the id counter) move on.
\<close>

theorem sync_twice_same_orders:
  "map columns (pending_orders (sync_pending_orders now2 live (sync_pending_orders now1 live st))) =
     map columns (pending_orders (sync_pending_orders now1 live st)) \<and>
   filter (\<lambda>r. order_id (columns r) \<notin> set (map order_id live))
       (pending_orders (sync_pending_orders now2 live (sync_pending_orders now1 live st))) =
     filter (\<lambda>r. order_id (columns r) \<notin> set (map order_id live))
       (pending_orders (sync_pending_orders now1 live st))"
proof -
  let ?s1 = "sync_pending_orders now1 live st"
  let ?out = "\<lambda>r. order_id (columns r) \<notin> set (map order_id live)"
  let ?K = "map columns (pending_orders (fold (insert_or_replace now1) live
        \<lparr>pending_orders = [], pending_orders_seq = 0\<rparr>))"
  have second: "sync_pending_orders now2 live ?s1 = fold (insert_or_replace now2) live ?s1"
    by (subst sync_unfold) (simp only: sync_second_pass_no_missing fold_simps)
  have out: "filter ?out (pending_orders (sync_pending_orders now2 live ?s1)) = filter ?out (pending_orders ?s1)"
    unfolding second by (rule fold_insert_outside)
  have "map columns (pending_orders (sync_pending_orders now2 live ?s1)) =
        map columns (filter ?out (pending_orders ?s1)) @ ?K"
    unfolding second by (rule fold_insert_columns)
  also have "filter ?out (pending_orders ?s1) =
      filter ?out (pending_orders (fold (update_filled now1)
         (filter (\<lambda>i. i \<notin> set (map order_id live)) (remdups (select_active_order_ids st))) st))"
    unfolding sync_unfold by (rule fold_insert_outside)
  also have "map columns \<dots> @ ?K = map columns (pending_orders ?s1)"
    unfolding sync_unfold by (rule fold_insert_columns [symmetric])
  finally show ?thesis using out by (rule conjI)
qed

text \<open>
  Claim C10. In a table that satisfies the \<open>UNIQUE\<close> constraint on \<open>order_id\<close>, a row whose
  order id is absent from the snapshot and whose status is outside the open set
  (\<open>Filled\<close>, \<open>Cancelled\<close>, or any other) is in the table after the pass exactly as it was:
  a vanished \<open>Cancelled\<close> order is never rewritten as \<open>Filled\<close>.
\<close>

theorem sync_keeps_terminal_rows:
  assumes u: "unique_order_ids st"
    and r: "r \<in> set (pending_orders st)"
    and absent: "order_id (columns r) \<notin> set (map order_id live)"
    and terminal: "status (columns r) \<notin> set [''PendingSubmit'', ''PreSubmitted'', ''Submitted'', ''PendingCancel'']"
  shows "r \<in> set (pending_orders (sync_pending_orders now live st))"
proof -
  let ?missing = "filter (\<lambda>i. i \<notin> set (map order_id live)) (remdups (select_active_order_ids st))"
  let ?G = "\<lambda>r. if order_id (columns r) \<in> set ?missing \<and> status (columns r) \<notin> set [''Filled'', ''Cancelled'']
               then set_filled now r else r"
  have nm: "order_id (columns r) \<notin> set ?missing"
  proof
    assume "order_id (columns r) \<in> set ?missing"
    then obtain r' where r': "r' \<in> set (pending_orders st)"
      "status (columns r') \<in> set [''PendingSubmit'', ''PreSubmitted'', ''Submitted'', ''PendingCancel'']"
      "order_id (columns r') = order_id (columns r)"
      unfolding missing_ids_mem by blast
    from u have "inj_on (\<lambda>r. order_id (columns r)) (set (pending_orders st))"
      by (simp add: unique_order_ids_def distinct_map)
    from inj_onD [OF this r'(3) r'(1) r] have "r' = r" .
    with r'(2) terminal show False by blast
  qed
  then have g: "?G r = r" by (intro if_not_P) blast
  have "r \<in> set (filter (\<lambda>r. order_id (columns r) \<notin> set (map order_id live))
      (map ?G (pending_orders st)))"
    using r g absent by (rule in_filter_mapI)
  then have "r \<in> set (filter (\<lambda>r. order_id (columns r) \<notin> set (map order_id live))
      (pending_orders (sync_pending_orders now live st)))"
    unfolding sync_outside .
  then show ?thesis by (rule in_filterD)
qed

theorem sync_keeps_terminal_rows_witness:
  "\<lparr>row_id = 1,
       columns = (new_PendingOrder 0 ''1'' ''AAPL'' ''BUY'' 10 ''LMT'')\<lparr>status := ''Cancelled''\<rparr>,
       last_updated = 0\<rparr>
     \<in> set (pending_orders (sync_pending_orders 7 [new_PendingOrder 5 ''2'' ''MSFT'' ''SELL'' 5 ''MKT'']
          \<lparr>pending_orders = [\<lparr>row_id = 1,
              columns = (new_PendingOrder 0 ''1'' ''AAPL'' ''BUY'' 10 ''LMT'')\<lparr>status := ''Cancelled''\<rparr>,
              last_updated = 0\<rparr>],
            pending_orders_seq = 1\<rparr>))"
  using sync_keeps_terminal_rows [of
      "\<lparr>pending_orders = [\<lparr>row_id = 1,
              columns = (new_PendingOrder 0 ''1'' ''AAPL'' ''BUY'' 10 ''LMT'')\<lparr>status := ''Cancelled''\<rparr>,
              last_updated = 0\<rparr>],
            pending_orders_seq = 1\<rparr>"
      "\<lparr>row_id = 1,
       columns = (new_PendingOrder 0 ''1'' ''AAPL'' ''BUY'' 10 ''LMT'')\<lparr>status := ''Cancelled''\<rparr>,
       last_updated = 0\<rparr>"
      "[new_PendingOrder 5 ''2'' ''MSFT'' ''SELL'' 5 ''MKT'']" 7]
  by (simp add: unique_order_ids_def)

section \<open>Verified properties: bracket status\<close>

lemma exit_orders_set:
  "set (filter (\<lambda>leg. leg \<noteq> main_order b) (get_all_orders b)) = set (get_all_orders b) - {main_order b}"
  by auto

text \<open>
  Claim C5, as stated, on a bracket whose main order is filled: with the profit target
  \<open>Filled\<close> and the stop leg still \<open>Submitted\<close> the status is \<open>Bracket Closed\<close>, not
  \<open>Managing Position\<close>; and with both exit legs still \<open>PendingSubmit\<close> the status is
  \<open>Bracket Active\<close>, a value outside the three the claim lists.
\<close>

theorem get_status_counterexample:
  "filled_quantity (main_order
      \<lparr>main_order = (new_PendingOrder 0 ''1'' ''AAPL'' ''BUY'' 100 ''LMT'')
          \<lparr>status := ''Filled'', filled_quantity := 100\<rparr>,
       profit_target = Some ((new_PendingOrder 0 ''2'' ''AAPL'' ''SELL'' 100 ''LMT'')
          \<lparr>status := ''Filled'', filled_quantity := 100, parent_id := Some ''1''\<rparr>),
       BracketOrder.stop_loss = Some ((new_PendingOrder 0 ''3'' ''AAPL'' ''SELL'' 100 ''STP'')
          \<lparr>status := ''Submitted'', parent_id := Some ''1''\<rparr>),
       oca_group = ''BRACKET_1''\<rparr>) \<noteq> 0 \<and>
   get_status
      \<lparr>main_order = (new_PendingOrder 0 ''1'' ''AAPL'' ''BUY'' 100 ''LMT'')
          \<lparr>status := ''Filled'', filled_quantity := 100\<rparr>,
       profit_target = Some ((new_PendingOrder 0 ''2'' ''AAPL'' ''SELL'' 100 ''LMT'')
          \<lparr>status := ''Filled'', filled_quantity := 100, parent_id := Some ''1''\<rparr>),
       BracketOrder.stop_loss = Some ((new_PendingOrder 0 ''3'' ''AAPL'' ''SELL'' 100 ''STP'')
          \<lparr>status := ''Submitted'', parent_id := Some ''1''\<rparr>),
       oca_group = ''BRACKET_1''\<rparr> = ''Bracket Closed'' \<and>
   get_status
      \<lparr>main_order = (new_PendingOrder 0 ''1'' ''AAPL'' ''BUY'' 100 ''LMT'')
          \<lparr>status := ''Filled'', filled_quantity := 100\<rparr>,
       profit_target = Some ((new_PendingOrder 0 ''2'' ''AAPL'' ''SELL'' 100 ''LMT'')
          \<lparr>parent_id := Some ''1''\<rparr>),
       BracketOrder.stop_loss = Some ((new_PendingOrder 0 ''3'' ''AAPL'' ''SELL'' 100 ''STP'')
          \<lparr>parent_id := Some ''1''\<rparr>),
       oca_group = ''BRACKET_1''\<rparr> = ''Bracket Active''"
  by (simp add: get_status_def get_all_orders_def new_PendingOrder_def)

text \<open>
  Claim C5, amended. The exit legs are the present legs that differ from the main order.
  If the main order has no filled quantity the bracket reports the main order's status.
  Otherwise: \<open>Bracket Closed\<close> if an exit leg is \<open>Filled\<close>; else \<open>Managing Position\<close> if an
  exit leg is \<open>Submitted\<close> or \<open>PreSubmitted\<close>; else \<open>Bracket Active\<close>.
\<close>

theorem get_status_precedence:
  "(filled_quantity (main_order b) = 0 \<longrightarrow> get_status b = status (main_order b)) \<and>
   (filled_quantity (main_order b) \<noteq> 0 \<and>
      (\<exists>x \<in> set (get_all_orders b) - {main_order b}. status x = ''Filled'')
        \<longrightarrow> get_status b = ''Bracket Closed'') \<and>
   (filled_quantity (main_order b) \<noteq> 0 \<and>
      \<not> (\<exists>x \<in> set (get_all_orders b) - {main_order b}. status x = ''Filled'') \<and>
      (\<exists>x \<in> set (get_all_orders b) - {main_order b}. status x \<in> set [''Submitted'', ''PreSubmitted''])
        \<longrightarrow> get_status b = ''Managing Position'') \<and>
   (filled_quantity (main_order b) \<noteq> 0 \<and>
      \<not> (\<exists>x \<in> set (get_all_orders b) - {main_order b}. status x = ''Filled'') \<and>
      \<not> (\<exists>x \<in> set (get_all_orders b) - {main_order b}. status x \<in> set [''Submitted'', ''PreSubmitted''])
        \<longrightarrow> get_status b = ''Bracket Active'')"
  unfolding get_status_def Let_def list_ex_iff exit_orders_set
  by (intro conjI impI; (elim conjE)?; simp only: if_True if_False simp_thms)

theorem get_status_precedence_witness:
  "get_status
      \<lparr>main_order = (new_PendingOrder 0 ''1'' ''AAPL'' ''BUY'' 100 ''LMT'')
          \<lparr>status := ''Filled'', filled_quantity := 100\<rparr>,
       profit_target = Some ((new_PendingOrder 0 ''2'' ''AAPL'' ''SELL'' 100 ''LMT'')
          \<lparr>status := ''PreSubmitted'', parent_id := Some ''1''\<rparr>),
       BracketOrder.stop_loss = Some ((new_PendingOrder 0 ''3'' ''AAPL'' ''SELL'' 100 ''STP'')
          \<lparr>status := ''Submitted'', parent_id := Some ''1''\<rparr>),
       oca_group = ''BRACKET_1''\<rparr> = ''Managing Position''"
  using get_status_precedence [of
      "\<lparr>main_order = (new_PendingOrder 0 ''1'' ''AAPL'' ''BUY'' 100 ''LMT'')
          \<lparr>status := ''Filled'', filled_quantity := 100\<rparr>,
       profit_target = Some ((new_PendingOrder 0 ''2'' ''AAPL'' ''SELL'' 100 ''LMT'')
          \<lparr>status := ''PreSubmitted'', parent_id := Some ''1''\<rparr>),
       BracketOrder.stop_loss = Some ((new_PendingOrder 0 ''3'' ''AAPL'' ''SELL'' 100 ''STP'')
          \<lparr>status := ''Submitted'', parent_id := Some ''1''\<rparr>),
       oca_group = ''BRACKET_1''\<rparr>"]
  by (simp add: get_all_orders_def new_PendingOrder_def)

section \<open>Verified properties: gateway counters\<close>

text \<open>
  The tracked calls: \<open>modify_order\<close> and \<open>place_bracket_order\<close> count every call and every
  failure, \<open>get_open_orders\<close> does once the connection test has passed, and the health
  report reads the two counters and their ratio.
\<close>

lemma modify_order_tracked:
  "total_request_count (snd (modify_order now c t k self oid)) = total_request_count self + 1 \<and>
   failed_request_count (snd (modify_order now c t k self oid)) =
     failed_request_count self + (if fst (modify_order now c t k self oid) then 0 else 1)"
  by (simp add: modify_order_def track_request_success_def track_request_failure_def
      split: sum.split)

lemma place_bracket_order_tracked:
  "total_request_count (snd (place_bracket_order now c g self smb act qty e p s)) =
     total_request_count self + 1 \<and>
   failed_request_count (snd (place_bracket_order now c g self smb act qty e p s)) =
     failed_request_count self + (if isl (fst (place_bracket_order now c g self smb act qty e p s)) then 1 else 0)"
  by (simp add: place_bracket_order_def track_request_success_def track_request_failure_def Let_def
      split: sum.split)

lemma get_open_orders_tracked:
  "is_connected c self \<Longrightarrow>
   total_request_count (snd (get_open_orders now c t self)) = total_request_count self + 1 \<and>
   failed_request_count (snd (get_open_orders now c t self)) =
     failed_request_count self + (if isl t then 1 else 0)"
  by (simp add: get_open_orders_def track_request_success_def track_request_failure_def
      split: sum.split)

lemma get_connection_health_ratio:
  "h_total_requests (get_connection_health m self) = total_request_count self \<and>
   h_failed_requests (get_connection_health m self) = failed_request_count self \<and>
   h_success_rate (get_connection_health m self) =
     (if total_request_count self > 0
      then (real (total_request_count self) - real (failed_request_count self))
             / real (total_request_count self)
      else 0)"
  by (simp add: get_connection_health_def)

text \<open>
  Claim C8 fails on \<open>place_order\<close> and \<open>cancel_order\<close>: whatever the gateway answers,
  success or exception, both leave the broker as it was, so the health report shows
  the same total and failed request counts after the call as before it.
\<close>

theorem place_order_cancel_order_not_tracked:
  "snd (place_order c g self smb act qty otype lmt) = self \<and>
   snd (cancel_order c t k self oid) = self \<and>
   h_total_requests (get_connection_health m (snd (place_order c g self smb act qty otype lmt))) =
     total_request_count self \<and>
   h_failed_requests (get_connection_health m (snd (cancel_order c t k self oid))) =
     failed_request_count self"
proof -
  have a: "snd (place_order c g self smb act qty otype lmt) = self"
    by (simp add: place_order_def Let_def split: sum.split)
  have b: "snd (cancel_order c t k self oid) = self"
    by (simp add: cancel_order_def split: sum.split)
  show ?thesis by (simp add: a b get_connection_health_def)
qed

text \<open>A failed placement on a fresh broker: both counters stay 0.\<close>

lemma place_order_failure_at_input:
  "place_order True (\<lambda>s x. Inl Exception)
     \<lparr>connected = True, connection_ready = True, client_id = Some 17,
      last_successful_request = None, failed_request_count = 0, total_request_count = 0\<rparr>
     ''AAPL'' ''BUY'' 10 ''MKT'' None =
   (None, \<lparr>connected = True, connection_ready = True, client_id = Some 17,
      last_successful_request = None, failed_request_count = 0, total_request_count = 0\<rparr>)"
  by (simp add: place_order_def is_connected_def)

section \<open>Verified properties: trailing-order validation\<close>

text \<open>
  What the three validators do with a \<open>TRAIL\<close> order. \<open>validate_order\<close> rejects an order
  with neither trailing field; \<open>validate_ibkr_order_type\<close> asks for the presence of one
  key; \<open>OrderValidator.validate\<close> accepts a trailing order only when exactly one of the
  two fields is set.
\<close>

lemma upper_literals [simp]:
  "upper ''SELL'' = ''SELL''" "upper ''BUY'' = ''BUY''" "upper ''AAPL'' = ''AAPL''"
  "upper ''TRAIL'' = ''TRAIL''" "upper ''STOCK'' = ''STOCK''" "upper ''DAY'' = ''DAY''"
  "upper ''MARKET'' = ''MARKET''"
  by (simp_all add: upper_def upper_char_def)

lemma and_then_isl: "isl m \<Longrightarrow> isl (and_then m f)"
  by (cases m) (simp_all add: and_then_def)

lemma and_then_isl2: "(\<And>x. m = Inr x \<Longrightarrow> isl (f x)) \<Longrightarrow> isl (and_then m f)"
  by (cases m) (simp_all add: and_then_def)

lemma validate_order_trail_neither_fails:
  assumes t: "get_upper order ''order_type'' ''MARKET'' = Inr raw"
    and raw: "raw = ''TRAIL'' \<or> raw = ''TRAILING_STOP''"
    and p: "is_missing order ''trail_percent''"
    and a: "is_missing order ''trail_amount''"
  shows "isl (validate_order bi order)"
proof -
  have ot: "(case map_of order_type_map raw of Some t \<Rightarrow> t | None \<Rightarrow> raw) = ''TRAIL''"
    using raw by (auto simp add: order_type_map_def)
  show ?thesis
    by (simp add: validate_order_def and_then_def Let_def add_trail_def t ot p a split: sum.split)
qed

lemma validate_ibkr_trail:
  "validate_ibkr_order_type ''TRAIL'' params \<longleftrightarrow>
     params ''trail_amount'' \<noteq> None \<or> params ''trail_percent'' \<noteq> None"
  by (simp add: validate_ibkr_order_type_def)

lemma validate_trailing_exactly_one:
  "order_type order = TRAILING_STOP \<Longrightarrow> validate order = Inr (True, errs) \<Longrightarrow>
   truthy (trail_amount order) \<noteq> truthy (trail_percent order)"
  by (auto simp add: validate_def and_then_def trailing_errors_def Let_def split: if_splits)

text \<open>
  Claim C1 fails on \<open>validate_order\<close> and on \<open>validate_ibkr_order_type\<close>: a \<open>TRAIL\<close> order
  that sets both \<open>trail_percent = 5\<close> and \<open>trail_amount = 2\<close> passes both, and the
  normalized order carries both fields. \<open>OrderValidator.validate\<close> rejects the same order.
\<close>

theorem validate_order_accepts_both_trail_modes:
  "validate_order bi
     [''symbol'' \<mapsto> PyStr ''AAPL'', ''action'' \<mapsto> PyStr ''SELL'', ''quantity'' \<mapsto> PyInt 10,
      ''order_type'' \<mapsto> PyStr ''TRAIL'', ''trail_percent'' \<mapsto> PyFloat (Finite 5),
      ''trail_amount'' \<mapsto> PyFloat (Finite 2)] =
   Inr [''symbol'' \<mapsto> PyStr ''AAPL'', ''action'' \<mapsto> PyStr ''SELL'', ''quantity'' \<mapsto> PyInt 10,
        ''asset_type'' \<mapsto> PyStr ''STOCK'', ''order_type'' \<mapsto> PyStr ''TRAIL'',
        ''time_in_force'' \<mapsto> PyStr ''DAY'', ''trail_percent'' \<mapsto> PyFloat (Finite 5),
        ''trail_amount'' \<mapsto> PyFloat (Finite 2)] \<and>
   validate_ibkr_order_type ''TRAIL''
     [''symbol'' \<mapsto> PyStr ''AAPL'', ''action'' \<mapsto> PyStr ''SELL'', ''quantity'' \<mapsto> PyInt 10,
      ''order_type'' \<mapsto> PyStr ''TRAIL'', ''trail_percent'' \<mapsto> PyFloat (Finite 5),
      ''trail_amount'' \<mapsto> PyFloat (Finite 2)] \<and>
   validate \<lparr>symbol = ''AAPL'', action = SELL, Order.quantity = 10, order_type = TRAILING_STOP,
      limit_price = None, stop_price = None, trail_amount = Some 2, trail_percent = Some 5,
      time_in_force = DAY, Order.asset_type = STOCK\<rparr> =
     Inr (False, [''Trailing stop cannot have both amount and percent''])"
  by (simp add: validate_order_def and_then_def is_missing_def getitem_def get_upper_def
      py_str_def parse_quantity_def py_int_of_def order_type_map_def add_trail_def
      parse_number_def py_float_def validate_ibkr_order_type_def validate_def
      trailing_errors_def truthy_def Let_def)

text \<open>The same order with concrete built-ins (no string parses, no date is valid).\<close>

theorem validate_order_accepts_both_trail_modes_witness:
  "validate_order
     \<lparr>str_of_number = (\<lambda>v. []), float_of_str = (\<lambda>s. None), int_of_str = (\<lambda>s. None),
      strptime_ymd = (\<lambda>s. False)\<rparr>
     [''symbol'' \<mapsto> PyStr ''AAPL'', ''action'' \<mapsto> PyStr ''SELL'', ''quantity'' \<mapsto> PyInt 10,
      ''order_type'' \<mapsto> PyStr ''TRAIL'', ''trail_percent'' \<mapsto> PyFloat (Finite 5),
      ''trail_amount'' \<mapsto> PyFloat (Finite 2)] =
   Inr [''symbol'' \<mapsto> PyStr ''AAPL'', ''action'' \<mapsto> PyStr ''SELL'', ''quantity'' \<mapsto> PyInt 10,
        ''asset_type'' \<mapsto> PyStr ''STOCK'', ''order_type'' \<mapsto> PyStr ''TRAIL'',
        ''time_in_force'' \<mapsto> PyStr ''DAY'', ''trail_percent'' \<mapsto> PyFloat (Finite 5),
        ''trail_amount'' \<mapsto> PyFloat (Finite 2)]"
  by (rule validate_order_accepts_both_trail_modes [THEN conjunct1])

end
